theory Spec2Isabelle
  imports Complex_Main "HOL-Library.AList"
begin

section \<open>Values, errors and the environment\<close>

text \<open>
  The module \<^verbatim>\<open>currencyconsts.py\<close> keeps two process-wide dictionaries, \<^verbatim>\<open>_config\<close> and
  \<^verbatim>\<open>_cache\<close>, and reads the clock and the network. The embedding passes the two
  dictionaries explicitly in a state record, takes the clock reading and the network as
  arguments, and returns every exception as a value.

  Conventions of the embedding:
  \<^item> Python numbers (\<^verbatim>\<open>int\<close> and \<^verbatim>\<open>float\<close>) are real numbers: arithmetic is exact, rounding
    of binary floating point is not represented, and neither are NaN and the infinities.
  \<^item> Strings are lists of 8-bit characters. \<open>upper\<close> and \<open>lower\<close> change the ASCII letters
    only, which is what \<^verbatim>\<open>str.upper\<close> and \<^verbatim>\<open>str.lower\<close> do on ASCII strings. Python maps
    every Unicode letter and may change the length (the German sharp s becomes \<^verbatim>\<open>SS\<close>);
    strings with characters outside ASCII are not represented.
  \<^item> A Python dictionary is an association list with distinct keys in insertion order;
    storing a key that exists replaces its value in place, a new key is added at the end.
  \<^item> A \<^verbatim>\<open>datetime\<close> is an integer number of microseconds, a \<^verbatim>\<open>timedelta\<close> likewise.
  \<^item> The lock only serialises callers; the embedding runs one call at a time.
\<close>

datatype json =
    JNull
  | JBool bool
  | JNum real
  | JStr string
  | JArr "json list"
  | JObj "(string \<times> json) list"

type_synonym rate_table = "(string \<times> json) list"

datatype error =
    ConnectionError "string list"
  | ValueError string
  | ZeroDivisionError
  | OverflowError
  | TypeError
  | AttributeError

text \<open>
  The text of an exception as \<^verbatim>\<open>f"{e}"\<close> prints it. For the exceptions the interpreter
  raises itself the wording is shortened to the name of the class. The message of the
  \<^verbatim>\<open>ConnectionError\<close> of \<^verbatim>\<open>_fetch_rates\<close> ends with the printed \<^verbatim>\<open>errors\<close> list; the list
  is the argument of the constructor and only the fixed sentence is spelled out here.
\<close>

fun message :: "error \<Rightarrow> string" where
  "message (ConnectionError errs) = ''Could not fetch live rates from any API.''"
| "message (ValueError m) = m"
| "message ZeroDivisionError = ''ZeroDivisionError''"
| "message OverflowError = ''OverflowError''"
| "message TypeError = ''TypeError''"
| "message AttributeError = ''AttributeError''"

text \<open>
  One attempt at an endpoint is everything between \<^verbatim>\<open>try:\<close> and \<^verbatim>\<open>data = response.json()\<close>:
  formatting the template, the GET request, the status check and decoding the body.
  Either some step raises (with a message) or a JSON value comes back. The network is a
  function of the position of the attempt in the endpoint list, the template and the two
  spellings of the base that are substituted into it.
\<close>

datatype http_outcome = Raised string | Body json

type_synonym net = "nat \<Rightarrow> string \<Rightarrow> string \<Rightarrow> string \<Rightarrow> http_outcome"

subsection \<open>Strings\<close>

definition upper_char :: "char \<Rightarrow> char" where
  "upper_char c =
     (let n = (of_char c :: nat) in if 97 \<le> n \<and> n \<le> 122 then char_of (n - 32) else c)"

definition lower_char :: "char \<Rightarrow> char" where
  "lower_char c =
     (let n = (of_char c :: nat) in if 65 \<le> n \<and> n \<le> 90 then char_of (n + 32) else c)"

definition upper :: "string \<Rightarrow> string" where
  "upper s = map upper_char s"

definition lower :: "string \<Rightarrow> string" where
  "lower s = map lower_char s"

fun starts_with :: "string \<Rightarrow> string \<Rightarrow> bool" where
  "starts_with [] s = True"
| "starts_with (p # ps) [] = False"
| "starts_with (p # ps) (c # cs) = (p = c \<and> starts_with ps cs)"

text \<open>\<^verbatim>\<open>p in s\<close> for two strings: \<^verbatim>\<open>p\<close> occurs in \<^verbatim>\<open>s\<close> as a contiguous piece.\<close>

fun str_contains :: "string \<Rightarrow> string \<Rightarrow> bool" where
  "str_contains p [] = (p = [])"
| "str_contains p (c # cs) = (starts_with p (c # cs) \<or> str_contains p cs)"

definition is_upper_letter :: "char \<Rightarrow> bool" where
  "is_upper_letter c = (65 \<le> (of_char c :: nat) \<and> (of_char c :: nat) \<le> 90)"

definition is_ascii_letter :: "char \<Rightarrow> bool" where
  "is_ascii_letter c =
     (let n = (of_char c :: nat) in (65 \<le> n \<and> n \<le> 90) \<or> (97 \<le> n \<and> n \<le> 122))"

text \<open>An uppercase 3-letter currency code, as in \<^verbatim>\<open>CURRENCY_CODES\<close>.\<close>

definition is_currency_code :: "string \<Rightarrow> bool" where
  "is_currency_code s = (length s = 3 \<and> list_all is_upper_letter s)"

section \<open>Configuration and cache\<close>

record config =
  base_currency :: string
  margin_percent :: real
  cache_ttl_minutes :: int
  offline_mode :: bool
  api_endpoints :: "string list"

record cache =
  rates :: rate_table
  last_fetch :: "int option"
  base :: "string option"
  using_fallback :: bool

text \<open>
  The state is the two dictionaries plus a log that is not in the source: one entry for
  each call of \<^verbatim>\<open>_fetch_rates\<close>, holding the base it was called for and what it returned.
  The log is only ever appended to and nothing reads it; it makes "a fetch happened"
  a property of the state.
\<close>

record state =
  config :: config
  cache :: cache
  fetch_log :: "(string \<times> (error + rate_table)) list"

definition init_config :: config where
  "init_config =
     \<lparr> base_currency = ''usd'',
       margin_percent = 0,
       cache_ttl_minutes = 60,
       offline_mode = False,
       api_endpoints = [''https://open.er-api.com/v6/latest/{BASE}''] \<rparr>"

definition init_cache :: cache where
  "init_cache = \<lparr> rates = [], last_fetch = None, base = None, using_fallback = False \<rparr>"

definition init_state :: state where
  "init_state = \<lparr> config = init_config, cache = init_cache, fetch_log = [] \<rparr>"

section \<open>API functions\<close>

text \<open>\<^verbatim>\<open>{k.upper(): v for k, v in items}\<close>: the items are stored one after the other.\<close>

definition upper_keys :: "(string \<times> json) list \<Rightarrow> rate_table" where
  "upper_keys items = foldl (\<lambda>acc (k, v). AList.update (upper k) v acc) [] items"

text \<open>\<^verbatim>\<open>isinstance(v, (int, float))\<close>; a Python \<^verbatim>\<open>bool\<close> is an \<^verbatim>\<open>int\<close>.\<close>

fun is_number :: "json \<Rightarrow> bool" where
  "is_number (JNum r) = True"
| "is_number (JBool b) = True"
| "is_number v = False"

text \<open>
  \<^verbatim>\<open>{k.upper(): v for k, v in x.items()}\<close> for the value \<^verbatim>\<open>x\<close> found under a key:
  only an object has \<^verbatim>\<open>items\<close>.
\<close>

fun items_upper :: "json option \<Rightarrow> error + rate_table" where
  "items_upper (Some (JObj m)) = Inr (upper_keys m)"
| "items_upper x = Inl AttributeError"

text \<open>
  \<^verbatim>\<open>_parse_api_response(data, base, url)\<close>; the third argument is not used by the source
  and is left out. The body of a response need not be an object: on a list \<^verbatim>\<open>in\<close> is
  membership, on a string it is the substring test, and subscripting either with a string
  raises \<^verbatim>\<open>TypeError\<close>; on \<^verbatim>\<open>null\<close>, a boolean or a number \<^verbatim>\<open>in\<close> itself raises.
\<close>

fun parse_api_response :: "json \<Rightarrow> string \<Rightarrow> error + rate_table" where
  "parse_api_response (JObj d) b =
     (if ''rates'' \<in> set (map fst d) then items_upper (map_of d ''rates'')
      else if lower b \<in> set (map fst d) then items_upper (map_of d (lower b))
      else if list_all (\<lambda>(k, v). is_number v) d then Inr (upper_keys d)
      else Inr [])"
| "parse_api_response (JArr xs) b =
     (if JStr ''rates'' \<in> set xs then Inl TypeError
      else if JStr (lower b) \<in> set xs then Inl TypeError
      else Inr [])"
| "parse_api_response (JStr s) b =
     (if str_contains ''rates'' s then Inl TypeError
      else if str_contains (lower b) s then Inl TypeError
      else Inr [])"
| "parse_api_response v b = Inl TypeError"

text \<open>
  The loop of \<^verbatim>\<open>_fetch_rates\<close> over the endpoint templates, with the position \<open>i\<close> of the
  next attempt and the \<^verbatim>\<open>errors\<close> list collected so far. An exception anywhere in the
  \<^verbatim>\<open>try\<close> block appends \<^verbatim>\<open>f"{endpoint_template}: {e}"\<close>; a table that is empty appends
  nothing and the loop goes on.
\<close>

fun try_endpoints :: "net \<Rightarrow> string \<Rightarrow> nat \<Rightarrow> string list \<Rightarrow> string list \<Rightarrow> error + rate_table" where
  "try_endpoints nt b i [] errors = Inl (ConnectionError errors)"
| "try_endpoints nt b i (t # ts) errors =
     (case nt i t (lower b) (upper b) of
        Raised e \<Rightarrow> try_endpoints nt b (Suc i) ts (errors @ [t @ '': '' @ e])
      | Body data \<Rightarrow>
          (case parse_api_response data (lower b) of
             Inl e \<Rightarrow> try_endpoints nt b (Suc i) ts (errors @ [t @ '': '' @ message e])
           | Inr rs \<Rightarrow> if rs \<noteq> [] then Inr rs else try_endpoints nt b (Suc i) ts errors))"

definition fetch_rates :: "string list \<Rightarrow> net \<Rightarrow> string \<Rightarrow> error + rate_table" where
  "fetch_rates endpoints nt b = try_endpoints nt b 0 endpoints []"

text \<open>
  \<^verbatim>\<open>timedelta(minutes=m)\<close>: the duration in microseconds; Python raises \<^verbatim>\<open>OverflowError\<close>
  when the number of whole days is beyond 999999999 in magnitude.
\<close>

definition timedelta_minutes :: "int \<Rightarrow> error + int" where
  "timedelta_minutes m =
     (if - 999999999 \<le> m div 1440 \<and> m div 1440 \<le> 999999999 then Inr (m * 60000000)
      else Inl OverflowError)"

text \<open>
  The condition of the \<^verbatim>\<open>if\<close> in \<^verbatim>\<open>_get_rates\<close>, evaluated left to right: a non-empty
  table, the recorded base equal to the configured one, a timestamp, and the age below
  the TTL. The \<^verbatim>\<open>timedelta\<close> is only built when the first three hold.
\<close>

definition cache_valid :: "int \<Rightarrow> state \<Rightarrow> error + bool" where
  "cache_valid now s =
     (if rates (cache s) = [] then Inr False
      else if base (cache s) \<noteq> Some (base_currency (config s)) then Inr False
      else case last_fetch (cache s) of
             None \<Rightarrow> Inr False
           | Some t \<Rightarrow>
               (case timedelta_minutes (cache_ttl_minutes (config s)) of
                  Inl e \<Rightarrow> Inl e
                | Inr ttl \<Rightarrow> Inr (now - t < ttl)))"

definition get_rates :: "int \<Rightarrow> net \<Rightarrow> state \<Rightarrow> (error + rate_table) \<times> state" where
  "get_rates now nt s =
     (case cache_valid now s of
        Inl e \<Rightarrow> (Inl e, s)
      | Inr True \<Rightarrow> (Inr (rates (cache s)), s)
      | Inr False \<Rightarrow>
          (let b = base_currency (config s);
               r = fetch_rates (api_endpoints (config s)) nt b;
               s1 = s\<lparr>fetch_log := fetch_log s @ [(b, r)]\<rparr>
           in case r of
                Inl e \<Rightarrow> (Inl e, s1)
              | Inr t \<Rightarrow>
                  (Inr t, s1\<lparr>cache := (cache s1)\<lparr>rates := t, last_fetch := Some now, base := Some b\<rparr>\<rparr>)))"

text \<open>The first \<^verbatim>\<open>with _lock\<close> block of \<^verbatim>\<open>refresh_rates\<close>.\<close>

definition clear_entry :: "state \<Rightarrow> state" where
  "clear_entry s = s\<lparr>cache := (cache s)\<lparr>rates := [], last_fetch := None\<rparr>\<rparr>"

definition refresh_rates :: "int \<Rightarrow> net \<Rightarrow> state \<Rightarrow> (error + unit) \<times> state" where
  "refresh_rates now nt s =
     (case get_rates now nt (clear_entry s) of
        (Inl e, s') \<Rightarrow> (Inl e, s')
      | (Inr t, s') \<Rightarrow> (Inr (), s'))"

section \<open>Configuration functions\<close>

definition set_base :: "string \<Rightarrow> state \<Rightarrow> state" where
  "set_base currency s =
     s\<lparr>config := (config s)\<lparr>base_currency := upper currency\<rparr>,
       cache := (cache s)\<lparr>rates := [], last_fetch := None\<rparr>\<rparr>"

definition set_margin :: "real \<Rightarrow> state \<Rightarrow> state" where
  "set_margin percent s = s\<lparr>config := (config s)\<lparr>margin_percent := percent\<rparr>\<rparr>"

definition set_cache_ttl :: "int \<Rightarrow> state \<Rightarrow> state" where
  "set_cache_ttl minutes s = s\<lparr>config := (config s)\<lparr>cache_ttl_minutes := minutes\<rparr>\<rparr>"

section \<open>The Currency class\<close>

record currency =
  code :: string

definition Currency :: "string \<Rightarrow> currency" where
  "Currency c = \<lparr> code = upper c \<rparr>"

text \<open>
  A table entry used as a number. Arithmetic of a number with a string, a list, an object
  or \<^verbatim>\<open>None\<close> raises \<^verbatim>\<open>TypeError\<close> (the repetition of a string or a list by an \<^verbatim>\<open>int\<close> amount,
  which Python also allows, is not represented).
\<close>

fun num_of :: "json \<Rightarrow> error + real" where
  "num_of (JNum r) = Inr r"
| "num_of (JBool b) = Inr (if b then 1 else 0)"
| "num_of v = Inl TypeError"

definition py_truediv :: "real \<Rightarrow> real \<Rightarrow> error + real" where
  "py_truediv a b = (if b = 0 then Inl ZeroDivisionError else Inr (a / b))"

definition py_floordiv :: "real \<Rightarrow> real \<Rightarrow> error + real" where
  "py_floordiv a b = (if b = 0 then Inl ZeroDivisionError else Inr (of_int \<lfloor>a / b\<rfloor>))"

definition py_mod :: "real \<Rightarrow> real \<Rightarrow> error + real" where
  "py_mod a b = (if b = 0 then Inl ZeroDivisionError else Inr (a - b * of_int \<lfloor>a / b\<rfloor>))"

text \<open>Continue with the value of a call that may have raised, keeping the state it left.\<close>

definition and_then :: "(error + 'a) \<times> state \<Rightarrow> ('a \<Rightarrow> error + 'b) \<Rightarrow> (error + 'b) \<times> state" where
  "and_then x f = (case x of (Inl e, s) \<Rightarrow> (Inl e, s) | (Inr v, s) \<Rightarrow> (f v, s))"

definition not_found :: "currency \<Rightarrow> error" where
  "not_found h = ValueError (''Currency '' @ [CHR 0x27] @ code h @ [CHR 0x27] @ '' not found'')"

text \<open>The property \<^verbatim>\<open>rate\<close>: \<^verbatim>\<open>rates.get(self.code)\<close> is \<^verbatim>\<open>None\<close> for a missing key and for a \<^verbatim>\<open>null\<close> entry.\<close>

definition currency_rate :: "currency \<Rightarrow> int \<Rightarrow> net \<Rightarrow> state \<Rightarrow> (error + json) \<times> state" where
  "currency_rate h now nt s =
     and_then (get_rates now nt s)
       (\<lambda>t. case map_of t (code h) of
               None \<Rightarrow> Inl (not_found h)
             | Some JNull \<Rightarrow> Inl (not_found h)
             | Some v \<Rightarrow> Inr v)"

definition currency_rate_with_margin :: "currency \<Rightarrow> int \<Rightarrow> net \<Rightarrow> state \<Rightarrow> (error + real) \<times> state" where
  "currency_rate_with_margin h now nt s =
     (case currency_rate h now nt s of
        (Inl e, s') \<Rightarrow> (Inl e, s')
      | (Inr v, s') \<Rightarrow>
          (case num_of v of
             Inl e \<Rightarrow> (Inl e, s')
           | Inr base_rate \<Rightarrow> (Inr (base_rate * (1 - margin_percent (config s') / 100)), s')))"

definition currency_convert :: "currency \<Rightarrow> real \<Rightarrow> int \<Rightarrow> net \<Rightarrow> state \<Rightarrow> (error + real) \<times> state" where
  "currency_convert h amount now nt s =
     (if margin_percent (config s) > 0
      then and_then (currency_rate_with_margin h now nt s) (\<lambda>r. Inr (amount * r))
      else and_then (currency_rate h now nt s)
             (\<lambda>v. case num_of v of Inl e \<Rightarrow> Inl e | Inr r \<Rightarrow> Inr (amount * r)))"

definition currency_rmul :: "currency \<Rightarrow> real \<Rightarrow> int \<Rightarrow> net \<Rightarrow> state \<Rightarrow> (error + real) \<times> state" where
  "currency_rmul h amount now nt s = currency_convert h amount now nt s"

definition currency_mul :: "currency \<Rightarrow> real \<Rightarrow> int \<Rightarrow> net \<Rightarrow> state \<Rightarrow> (error + real) \<times> state" where
  "currency_mul h amount now nt s = currency_convert h amount now nt s"

definition currency_truediv :: "currency \<Rightarrow> real \<Rightarrow> int \<Rightarrow> net \<Rightarrow> state \<Rightarrow> (error + real) \<times> state" where
  "currency_truediv h amount now nt s =
     (case py_truediv 1 amount of
        Inl e \<Rightarrow> (Inl e, s)
      | Inr q \<Rightarrow> currency_convert h q now nt s)"

definition currency_rtruediv :: "currency \<Rightarrow> real \<Rightarrow> int \<Rightarrow> net \<Rightarrow> state \<Rightarrow> (error + real) \<times> state" where
  "currency_rtruediv h amount now nt s =
     and_then (currency_rate h now nt s)
       (\<lambda>v. case num_of v of Inl e \<Rightarrow> Inl e | Inr r \<Rightarrow> py_truediv amount r)"

definition currency_floordiv :: "currency \<Rightarrow> real \<Rightarrow> int \<Rightarrow> net \<Rightarrow> state \<Rightarrow> (error + real) \<times> state" where
  "currency_floordiv h amount now nt s =
     and_then (currency_convert h 1 now nt s) (\<lambda>c. py_floordiv c amount)"

definition currency_rfloordiv :: "currency \<Rightarrow> real \<Rightarrow> int \<Rightarrow> net \<Rightarrow> state \<Rightarrow> (error + real) \<times> state" where
  "currency_rfloordiv h amount now nt s =
     and_then (currency_convert h 1 now nt s) (\<lambda>c. py_floordiv amount c)"

definition currency_add :: "currency \<Rightarrow> real \<Rightarrow> int \<Rightarrow> net \<Rightarrow> state \<Rightarrow> (error + real) \<times> state" where
  "currency_add h amount now nt s =
     and_then (currency_convert h 1 now nt s) (\<lambda>c. Inr (c + amount))"

definition currency_radd :: "currency \<Rightarrow> real \<Rightarrow> int \<Rightarrow> net \<Rightarrow> state \<Rightarrow> (error + real) \<times> state" where
  "currency_radd h amount now nt s =
     and_then (currency_convert h 1 now nt s) (\<lambda>c. Inr (amount + c))"

definition currency_sub :: "currency \<Rightarrow> real \<Rightarrow> int \<Rightarrow> net \<Rightarrow> state \<Rightarrow> (error + real) \<times> state" where
  "currency_sub h amount now nt s =
     and_then (currency_convert h 1 now nt s) (\<lambda>c. Inr (c - amount))"

definition currency_rsub :: "currency \<Rightarrow> real \<Rightarrow> int \<Rightarrow> net \<Rightarrow> state \<Rightarrow> (error + real) \<times> state" where
  "currency_rsub h amount now nt s =
     and_then (currency_convert h 1 now nt s) (\<lambda>c. Inr (amount - c))"

definition currency_mod :: "currency \<Rightarrow> real \<Rightarrow> int \<Rightarrow> net \<Rightarrow> state \<Rightarrow> (error + real) \<times> state" where
  "currency_mod h amount now nt s =
     and_then (currency_convert h 1 now nt s) (\<lambda>c. py_mod c amount)"

definition currency_rmod :: "currency \<Rightarrow> real \<Rightarrow> int \<Rightarrow> net \<Rightarrow> state \<Rightarrow> (error + real) \<times> state" where
  "currency_rmod h amount now nt s =
     and_then (currency_convert h 1 now nt s) (\<lambda>c. py_mod amount c)"

section \<open>Sequences of calls\<close>

text \<open>
  The public operations that change the state. A rate lookup, a conversion and every
  operator of a handle change the state only through their one call of \<^verbatim>\<open>_get_rates\<close>,
  so \<open>GetRates\<close> stands for all of them. Each call that may go to the network carries the
  clock reading and the network it meets.
\<close>

datatype op =
    SetBase string
  | SetMargin real
  | SetCacheTtl int
  | GetRates int net
  | RefreshRates int net

fun step :: "op \<Rightarrow> state \<Rightarrow> state" where
  "step (SetBase c) s = set_base c s"
| "step (SetMargin p) s = set_margin p s"
| "step (SetCacheTtl m) s = set_cache_ttl m s"
| "step (GetRates now nt) s = snd (get_rates now nt s)"
| "step (RefreshRates now nt) s = snd (refresh_rates now nt s)"

fun run :: "op list \<Rightarrow> state \<Rightarrow> state" where
  "run [] s = s"
| "run (x # xs) s = run xs (step x s)"

text \<open>
  The table in the cache is empty, or it is tagged with the configured base and is the
  result of a call of \<^verbatim>\<open>_fetch_rates\<close> for that base that is in the log after its first \<open>n\<close>
  entries.
\<close>

definition fetched_since :: "nat \<Rightarrow> state \<Rightarrow> bool" where
  "fetched_since n s =
     (n \<le> length (fetch_log s) \<and>
      (rates (cache s) = [] \<or>
       (base (cache s) = Some (base_currency (config s)) \<and>
        (base_currency (config s), Inr (rates (cache s))) \<in> set (drop n (fetch_log s)))))"

section \<open>The validity predicate as the specification words it\<close>

text \<open>
  The entry is non-empty, its base is the configured base, and \<^verbatim>\<open>now\<close> minus its fetch
  timestamp is below the TTL, here the duration \<open>ttl\<close> in microseconds. An entry without a
  timestamp is not valid.
\<close>

definition spec_entry_valid :: "int \<Rightarrow> int \<Rightarrow> state \<Rightarrow> bool" where
  "spec_entry_valid now ttl s =
     (rates (cache s) \<noteq> [] \<and>
      base (cache s) = Some (base_currency (config s)) \<and>
      (case last_fetch (cache s) of None \<Rightarrow> False | Some ts \<Rightarrow> now - ts < ttl))"

section \<open>Concrete situations\<close>

text \<open>
  A state as a first successful lookup at time 0 leaves it, with the defaults of
  \<^verbatim>\<open>_config\<close>: one euro rate in the cache, tagged with the base \<^verbatim>\<open>'usd'\<close>.
\<close>

definition example_cached :: state where
  "example_cached =
     init_state\<lparr>cache :=
       \<lparr> rates = [(''EUR'', JNum 0.9)], last_fetch = Some 0, base = Some ''usd'',
         using_fallback = False \<rparr>\<rparr>"

text \<open>A network on which every request times out.\<close>

definition net_down :: net where
  "net_down i t bl bu = Raised ''timeout''"

text \<open>A network whose every endpoint answers with a table in the \<^verbatim>\<open>rates\<close> shape.\<close>

definition net_live :: net where
  "net_live i t bl bu = Body (JObj [(''rates'', JObj [(''USD'', JNum 1), (''EUR'', JNum 0.9)])])"

text \<open>
  A network whose every endpoint answers with status 200 and an error document:
  no \<^verbatim>\<open>rates\<close> field, no field named after the base, and values that are not numbers.
\<close>

definition net_unsupported :: net where
  "net_unsupported i t bl bu =
     Body (JObj [(''result'', JStr ''error''), (''error-type'', JStr ''unsupported-code'')])"

section \<open>Auxiliary facts\<close>

subsection \<open>Strings\<close>

text \<open>Unfolding the string functions on literals.\<close>

lemmas str_eval = upper_def lower_def upper_char_def lower_char_def char_of_def bit_Suc_0_iff

lemma upper_upper: "upper (upper s) = upper s"
  by (induction s) (auto simp: upper_def upper_char_def Let_def)

lemma length_upper: "length (upper s) = length s"
  by (simp add: upper_def)

lemma upper_char_letter: "is_upper_letter (upper_char c) = is_ascii_letter c"
  by (auto simp: is_upper_letter_def is_ascii_letter_def upper_char_def Let_def)

lemma upper_all_letters: "list_all is_upper_letter (upper s) = list_all is_ascii_letter s"
  by (induction s) (simp_all add: upper_def upper_char_letter)

lemma upper_currency_code:
  "is_currency_code (upper c) = (length c = 3 \<and> list_all is_ascii_letter c)"
  by (simp add: is_currency_code_def length_upper upper_all_letters)

subsection \<open>The cached lookup\<close>

lemma snd_and_then: "snd (and_then x f) = snd x"
  by (cases x) (auto simp: and_then_def split: sum.splits)

lemma cache_valid_spec:
  "timedelta_minutes (cache_ttl_minutes (config s)) = Inr ttl \<Longrightarrow>
   cache_valid now s = Inr (spec_entry_valid now ttl s)"
  by (auto simp: cache_valid_def spec_entry_valid_def split: option.splits)

lemma get_rates_hit:
  "cache_valid now s = Inr True \<Longrightarrow> get_rates now nt s = (Inr (rates (cache s)), s)"
  by (simp add: get_rates_def)

lemma get_rates_miss:
  "cache_valid now s = Inr False \<Longrightarrow>
   get_rates now nt s =
     (let b = base_currency (config s);
          r = fetch_rates (api_endpoints (config s)) nt b;
          s1 = s\<lparr>fetch_log := fetch_log s @ [(b, r)]\<rparr>
      in case r of
           Inl e \<Rightarrow> (Inl e, s1)
         | Inr t \<Rightarrow> (Inr t, s1\<lparr>cache := (cache s1)\<lparr>rates := t, last_fetch := Some now, base := Some b\<rparr>\<rparr>))"
  by (simp add: get_rates_def)

lemma get_rates_raise:
  "cache_valid now s = Inl e \<Longrightarrow> get_rates now nt s = (Inl e, s)"
  by (simp add: get_rates_def)

lemma get_rates_config: "config (snd (get_rates now nt s)) = config s"
  by (auto simp: get_rates_def Let_def split: sum.splits bool.splits)

lemma get_rates_config': "get_rates now nt s = (r, s') \<Longrightarrow> config s' = config s"
  using get_rates_config [of now nt s] by simp

lemma get_rates_failure_cache:
  "get_rates now nt s = (Inl e, s') \<Longrightarrow> cache s' = cache s"
  by (auto simp: get_rates_def Let_def split: sum.splits bool.splits)

lemma get_rates_miss_log:
  "cache_valid now s = Inr False \<Longrightarrow>
   fetch_log (snd (get_rates now nt s)) =
     fetch_log s @ [(base_currency (config s),
                     fetch_rates (api_endpoints (config s)) nt (base_currency (config s)))]"
  by (auto simp: get_rates_miss Let_def split: sum.splits)

lemma get_rates_miss_result:
  "cache_valid now s = Inr False \<Longrightarrow>
   fst (get_rates now nt s) = fetch_rates (api_endpoints (config s)) nt (base_currency (config s))"
  by (auto simp: get_rates_miss Let_def split: sum.splits)

lemma get_rates_valid:
  "timedelta_minutes (cache_ttl_minutes (config s)) = Inr ttl \<Longrightarrow> spec_entry_valid now ttl s \<Longrightarrow>
   get_rates now nt s = (Inr (rates (cache s)), s)"
  by (simp add: get_rates_hit cache_valid_spec)

lemma get_rates_ttl_overflow:
  "rates (cache s) \<noteq> [] \<Longrightarrow> base (cache s) = Some (base_currency (config s)) \<Longrightarrow>
   last_fetch (cache s) = Some ts \<Longrightarrow>
   timedelta_minutes (cache_ttl_minutes (config s)) = Inl e \<Longrightarrow>
   get_rates now nt s = (Inl e, s)"
  by (simp add: get_rates_def cache_valid_def)

subsection \<open>Rates and conversion\<close>

lemma rate_present:
  "get_rates now nt s = (Inr t, s') \<Longrightarrow> map_of t (code h) = Some v \<Longrightarrow> v \<noteq> JNull \<Longrightarrow>
   currency_rate h now nt s = (Inr v, s')"
  by (cases v) (simp_all add: currency_rate_def and_then_def)

lemma rate_absent:
  "get_rates now nt s = (Inr t, s') \<Longrightarrow> map_of t (code h) = None \<Longrightarrow>
   currency_rate h now nt s = (Inl (not_found h), s')"
  by (simp add: currency_rate_def and_then_def)

lemma rate_with_margin_value:
  assumes "get_rates now nt s = (Inr t, s')" and "map_of t (code h) = Some (JNum r)"
  shows "currency_rate_with_margin h now nt s =
           (Inr (r * (1 - margin_percent (config s) / 100)), s')"
proof -
  have "currency_rate h now nt s = (Inr (JNum r), s')"
    using assms by (simp add: rate_present)
  moreover have "config s' = config s"
    using assms(1) by (rule get_rates_config')
  ultimately show ?thesis
    by (simp add: currency_rate_with_margin_def)
qed

lemma convert_value:
  assumes "get_rates now nt s = (Inr t, s')" and "map_of t (code h) = Some (JNum r)"
  shows "currency_convert h a now nt s =
           (Inr (if margin_percent (config s) > 0
                 then a * r * (1 - margin_percent (config s) / 100) else a * r), s')"
proof (cases "margin_percent (config s) > 0")
  case True
  then show ?thesis
    using rate_with_margin_value [OF assms]
    by (simp add: currency_convert_def and_then_def)
next
  case False
  have "currency_rate h now nt s = (Inr (JNum r), s')"
    using assms by (simp add: rate_present)
  with False show ?thesis
    by (simp add: currency_convert_def and_then_def)
qed

lemma rtruediv_value:
  assumes "get_rates now nt s = (Inr t, s')" and "map_of t (code h) = Some (JNum r)"
  shows "currency_rtruediv h x now nt s = (py_truediv x r, s')"
proof -
  have "currency_rate h now nt s = (Inr (JNum r), s')"
    using assms by (simp add: rate_present)
  then show ?thesis
    by (simp add: currency_rtruediv_def and_then_def)
qed

lemma rate_state: "snd (currency_rate h now nt s) = snd (get_rates now nt s)"
  by (simp add: currency_rate_def snd_and_then)

lemma rate_with_margin_state:
  "snd (currency_rate_with_margin h now nt s) = snd (get_rates now nt s)"
  using rate_state [of h now nt s]
  by (cases "currency_rate h now nt s")
     (auto simp: currency_rate_with_margin_def split: sum.splits)

lemma convert_state: "snd (currency_convert h a now nt s) = snd (get_rates now nt s)"
  by (simp add: currency_convert_def snd_and_then rate_state rate_with_margin_state)

subsection \<open>Operators in terms of the conversion\<close>

lemma and_then_convert:
  "currency_convert h 1 now nt s = (Inr c, s') \<Longrightarrow>
   and_then (currency_convert h 1 now nt s) f = (f c, s')"
  by (simp add: and_then_def)

lemma and_then_convert_fail:
  "currency_convert h 1 now nt s = (Inl e, s') \<Longrightarrow>
   and_then (currency_convert h 1 now nt s) f = (Inl e, s')"
  by (simp add: and_then_def)

lemmas operator_defs =
  currency_add_def currency_radd_def currency_sub_def currency_rsub_def
  currency_mod_def currency_rmod_def currency_floordiv_def currency_rfloordiv_def

lemma operators_value:
  assumes "currency_convert h 1 now nt s = (Inr c, s')"
  shows "currency_add h x now nt s = (Inr (c + x), s')"
    and "currency_radd h x now nt s = (Inr (x + c), s')"
    and "currency_sub h x now nt s = (Inr (c - x), s')"
    and "currency_rsub h x now nt s = (Inr (x - c), s')"
    and "currency_mod h x now nt s = (py_mod c x, s')"
    and "currency_rmod h x now nt s = (py_mod x c, s')"
    and "currency_floordiv h x now nt s = (py_floordiv c x, s')"
    and "currency_rfloordiv h x now nt s = (py_floordiv x c, s')"
  by (simp_all add: operator_defs and_then_convert [OF assms])

lemma operators_raise:
  assumes "currency_convert h 1 now nt s = (Inl e, s')"
  shows "currency_add h x now nt s = (Inl e, s')"
    and "currency_radd h x now nt s = (Inl e, s')"
    and "currency_sub h x now nt s = (Inl e, s')"
    and "currency_rsub h x now nt s = (Inl e, s')"
    and "currency_mod h x now nt s = (Inl e, s')"
    and "currency_rmod h x now nt s = (Inl e, s')"
    and "currency_floordiv h x now nt s = (Inl e, s')"
    and "currency_rfloordiv h x now nt s = (Inl e, s')"
  by (simp_all add: operator_defs and_then_convert_fail [OF assms])

lemma truediv_value:
  "x \<noteq> 0 \<Longrightarrow> currency_truediv h x now nt s = currency_convert h (1 / x) now nt s"
  by (simp add: currency_truediv_def py_truediv_def)

lemma truediv_zero: "currency_truediv h 0 now nt s = (Inl ZeroDivisionError, s)"
  by (simp add: currency_truediv_def py_truediv_def)

lemma rtruediv_rate:
  "currency_rate h now nt s = (Inr (JNum r), s') \<Longrightarrow>
   currency_rtruediv h x now nt s = (py_truediv x r, s')"
  by (simp add: currency_rtruediv_def and_then_def)

lemma rtruediv_no_margin:
  assumes m: "margin_percent (config s) \<le> 0"
    and c: "currency_convert h 1 now nt s = (Inr c, s')"
  shows "currency_rtruediv h x now nt s = (py_truediv x c, s')"
proof (cases "currency_rate h now nt s")
  case (Pair res s1)
  show ?thesis
  proof (cases res)
    case (Inl e)
    with Pair m c show ?thesis
      by (simp add: currency_convert_def and_then_def)
  next
    case (Inr v)
    with Pair m c show ?thesis
      by (cases "num_of v")
         (simp_all add: currency_convert_def currency_rtruediv_def and_then_def)
  qed
qed

subsection \<open>The shapes of a payload\<close>

lemma upper_keys_acc:
  "fst ` set (foldl (\<lambda>acc (k, v). AList.update (upper k) v acc) a m) =
     fst ` set a \<union> upper ` fst ` set m"
proof (induction m arbitrary: a)
  case Nil
  then show ?case by simp
next
  case (Cons x m)
  obtain k v where x: "x = (k, v)" by (cases x)
  show ?case by (simp add: x Cons.IH AList.dom_update)
qed

lemma upper_keys_dom: "fst ` set (upper_keys m) = upper ` fst ` set m"
  by (simp add: upper_keys_def upper_keys_acc)

lemma parse_rates_shape:
  "map_of d ''rates'' = Some (JObj m) \<Longrightarrow> parse_api_response (JObj d) b = Inr (upper_keys m)"
  by (auto simp: map_of_eq_None_iff [symmetric])

lemma parse_base_shape:
  "''rates'' \<notin> fst ` set d \<Longrightarrow> map_of d (lower b) = Some (JObj m) \<Longrightarrow>
   parse_api_response (JObj d) b = Inr (upper_keys m)"
  by (auto simp: map_of_eq_None_iff [symmetric])

lemma all_numbers_iff: "list_all (\<lambda>(k, v). is_number v) d \<longleftrightarrow> (\<forall>v \<in> snd ` set d. is_number v)"
  by (auto simp: list_all_iff)

lemma parse_direct_shape:
  "''rates'' \<notin> fst ` set d \<Longrightarrow> lower b \<notin> fst ` set d \<Longrightarrow> \<forall>v \<in> snd ` set d. is_number v \<Longrightarrow>
   parse_api_response (JObj d) b = Inr (upper_keys d)"
  by (simp add: all_numbers_iff)

lemma parse_no_shape:
  "''rates'' \<notin> fst ` set d \<Longrightarrow> lower b \<notin> fst ` set d \<Longrightarrow> \<not> (\<forall>v \<in> snd ` set d. is_number v) \<Longrightarrow>
   parse_api_response (JObj d) b = Inr []"
  by (auto simp: all_numbers_iff)

lemma parse_example_rates:
  "parse_api_response (JObj [(''rates'', JObj [(''eur'', JNum 0.9)])]) b = Inr [(''EUR'', JNum 0.9)]"
  by (simp add: upper_keys_def str_eval)

lemma parse_example_base:
  "parse_api_response (JObj [(''usd'', JObj [(''eur'', JNum 0.9)])]) ''usd'' = Inr [(''EUR'', JNum 0.9)]"
  by (simp add: upper_keys_def str_eval)

lemma parse_example_direct:
  "lower b \<noteq> ''eur'' \<Longrightarrow> lower b \<noteq> ''gbp'' \<Longrightarrow>
   parse_api_response (JObj [(''eur'', JNum 0.9), (''gbp'', JNum 0.8)]) b =
     Inr [(''EUR'', JNum 0.9), (''GBP'', JNum 0.8)]"
  by (simp add: upper_keys_def upper_def upper_char_def char_of_def bit_Suc_0_iff)

lemma parse_rates_not_object:
  "map_of d ''rates'' = Some v \<Longrightarrow> \<forall>m. v \<noteq> JObj m \<Longrightarrow>
   parse_api_response (JObj d) b = Inl AttributeError"
  by (cases v) (auto simp: map_of_eq_None_iff [symmetric])

subsection \<open>The endpoint loop\<close>

lemma try_endpoints_failure:
  "try_endpoints nt b i ts errs = Inl e \<Longrightarrow>
   \<exists>more. e = ConnectionError (errs @ more) \<and> length more \<le> length ts"
proof (induction ts arbitrary: i errs)
  case Nil
  then show ?case by simp
next
  case (Cons t ts)
  show ?case
  proof (cases "nt i t (lower b) (upper b)")
    case (Raised m)
    with Cons.prems have "try_endpoints nt b (Suc i) ts (errs @ [t @ '': '' @ m]) = Inl e"
      by simp
    from Cons.IH [OF this] show ?thesis by auto
  next
    case (Body data)
    show ?thesis
    proof (cases "parse_api_response data (lower b)")
      case (Inl pe)
      with Body Cons.prems
      have "try_endpoints nt b (Suc i) ts (errs @ [t @ '': '' @ message pe]) = Inl e"
        by simp
      from Cons.IH [OF this] show ?thesis by auto
    next
      case (Inr rs)
      with Body Cons.prems have "try_endpoints nt b (Suc i) ts errs = Inl e"
        by (simp split: if_splits)
      from Cons.IH [OF this] show ?thesis by auto
    qed
  qed
qed

lemma try_endpoints_success: "try_endpoints nt b i ts errs = Inr rs \<Longrightarrow> rs \<noteq> []"
  by (induction ts arbitrary: i errs)
     (auto split: http_outcome.splits sum.splits if_splits)

lemma fetch_rates_failure:
  "fetch_rates eps nt b = Inl e \<Longrightarrow> \<exists>errs. e = ConnectionError errs \<and> length errs \<le> length eps"
  using try_endpoints_failure [of nt b 0 eps "[]" e] by (simp add: fetch_rates_def)

lemma fetch_rates_success: "fetch_rates eps nt b = Inr rs \<Longrightarrow> rs \<noteq> []"
  using try_endpoints_success [of nt b 0 eps "[]" rs] by (simp add: fetch_rates_def)

text \<open>When every attempt raises, there is one entry per endpoint.\<close>

lemma try_endpoints_all_raise:
  "\<forall>j < length ts. \<exists>m. nt (i + j) (ts ! j) (lower b) (upper b) = Raised m \<Longrightarrow>
   \<exists>more. try_endpoints nt b i ts errs = Inl (ConnectionError (errs @ more)) \<and> length more = length ts"
proof (induction ts arbitrary: i errs)
  case Nil
  then show ?case by simp
next
  case (Cons t ts)
  from Cons.prems obtain m where m: "nt i t (lower b) (upper b) = Raised m"
    by force
  have "\<forall>j < length ts. \<exists>m. nt (Suc i + j) (ts ! j) (lower b) (upper b) = Raised m"
  proof (intro allI impI)
    fix j assume "j < length ts"
    then have "Suc j < length (t # ts)" by simp
    with Cons.prems have "\<exists>m. nt (i + Suc j) ((t # ts) ! Suc j) (lower b) (upper b) = Raised m"
      by blast
    then show "\<exists>m. nt (Suc i + j) (ts ! j) (lower b) (upper b) = Raised m" by simp
  qed
  from Cons.IH [OF this, of "errs @ [t @ '': '' @ m]"]
  obtain more where
    "try_endpoints nt b (Suc i) ts (errs @ [t @ '': '' @ m]) =
       Inl (ConnectionError ((errs @ [t @ '': '' @ m]) @ more))"
    and "length more = length ts" by blast
  with m show ?case by (intro exI [of _ "(t @ '': '' @ m) # more"]) simp
qed

lemma fetch_rates_all_raise:
  "\<forall>j < length eps. \<exists>m. nt j (eps ! j) (lower b) (upper b) = Raised m \<Longrightarrow>
   \<exists>errs. fetch_rates eps nt b = Inl (ConnectionError errs) \<and> length errs = length eps"
  using try_endpoints_all_raise [of eps nt 0 b "[]"] by (simp add: fetch_rates_def)

subsection \<open>Setters, clearing and refreshing\<close>

lemma set_base_fields:
  "rates (cache (set_base c s)) = []"
  "last_fetch (cache (set_base c s)) = None"
  "base_currency (config (set_base c s)) = upper c"
  "api_endpoints (config (set_base c s)) = api_endpoints (config s)"
  "fetch_log (set_base c s) = fetch_log s"
  by (simp_all add: set_base_def)

lemma clear_entry_fields:
  "cache (clear_entry s) = (cache s)\<lparr>rates := [], last_fetch := None\<rparr>"
  "config (clear_entry s) = config s"
  "fetch_log (clear_entry s) = fetch_log s"
  by (simp_all add: clear_entry_def)

lemma setter_fields:
  "cache (set_margin p s) = cache s"
  "fetch_log (set_margin p s) = fetch_log s"
  "margin_percent (config (set_margin p s)) = p"
  "cache_ttl_minutes (config (set_margin p s)) = cache_ttl_minutes (config s)"
  "base_currency (config (set_margin p s)) = base_currency (config s)"
  "cache (set_cache_ttl m s) = cache s"
  "fetch_log (set_cache_ttl m s) = fetch_log s"
  "margin_percent (config (set_cache_ttl m s)) = margin_percent (config s)"
  "cache_ttl_minutes (config (set_cache_ttl m s)) = m"
  "base_currency (config (set_cache_ttl m s)) = base_currency (config s)"
  by (simp_all add: set_margin_def set_cache_ttl_def)

lemma spec_entry_valid_set_margin:
  "spec_entry_valid now ttl (set_margin p s) = spec_entry_valid now ttl s"
  by (simp add: spec_entry_valid_def set_margin_def)

lemma spec_entry_valid_set_cache_ttl:
  "spec_entry_valid now ttl (set_cache_ttl m s) = spec_entry_valid now ttl s"
  by (simp add: spec_entry_valid_def set_cache_ttl_def)

lemma clear_entry_valid: "cache_valid now (clear_entry s) = Inr False"
  by (simp add: cache_valid_def clear_entry_def)

lemma set_base_valid: "cache_valid now (set_base c s) = Inr False"
  by (simp add: cache_valid_def set_base_def)

lemma refresh_rates_failure_cache:
  "refresh_rates now nt s = (Inl e, s') \<Longrightarrow> cache s' = cache (clear_entry s)"
  by (cases "get_rates now nt (clear_entry s)")
     (auto simp: refresh_rates_def dest: get_rates_failure_cache split: sum.splits)

lemma refresh_rates_get: "snd (refresh_rates now nt s) = snd (get_rates now nt (clear_entry s))"
  by (cases "get_rates now nt (clear_entry s)") (auto simp: refresh_rates_def split: sum.splits)

lemma refresh_rates_result:
  "fst (refresh_rates now nt s) =
     (case fetch_rates (api_endpoints (config s)) nt (base_currency (config s)) of
        Inl e \<Rightarrow> Inl e | Inr t \<Rightarrow> Inr ())"
proof -
  have cfg: "config (clear_entry s) = config s"
    by (simp add: clear_entry_def)
  have "fst (get_rates now nt (clear_entry s)) =
          fetch_rates (api_endpoints (config s)) nt (base_currency (config s))"
    using get_rates_miss_result [OF clear_entry_valid] by (simp add: cfg)
  then show ?thesis
    by (cases "get_rates now nt (clear_entry s)") (auto simp: refresh_rates_def split: sum.splits)
qed

subsection \<open>Where the cached table comes from\<close>

lemma fetched_since_set_base: "fetched_since (length (fetch_log s)) (set_base c s)"
  by (simp add: fetched_since_def set_base_def)

lemma fetched_since_clear: "fetched_since n s \<Longrightarrow> fetched_since n (clear_entry s)"
  by (simp add: fetched_since_def clear_entry_def)

lemma fetched_since_get_rates:
  assumes "fetched_since n s"
  shows "fetched_since n (snd (get_rates now nt s))"
proof (cases "cache_valid now s")
  case (Inl e)
  then show ?thesis using assms by (simp add: get_rates_raise)
next
  case (Inr v)
  show ?thesis
  proof (cases v)
    case True
    with Inr assms show ?thesis by (simp add: get_rates_hit)
  next
    case False
    with Inr have miss: "cache_valid now s = Inr False" by simp
    from assms have n: "n \<le> length (fetch_log s)"
      by (simp add: fetched_since_def)
    show ?thesis
    proof (cases "fetch_rates (api_endpoints (config s)) nt (base_currency (config s))")
      case (Inl e)
      with assms n show ?thesis
        by (auto simp: get_rates_miss [OF miss] Let_def fetched_since_def)
    next
      case (Inr t)
      with n show ?thesis
        by (simp add: get_rates_miss [OF miss] Let_def fetched_since_def)
    qed
  qed
qed

lemma fetched_since_step: "fetched_since n s \<Longrightarrow> fetched_since n (step x s)"
proof (cases x)
  case (SetBase c)
  assume "fetched_since n s"
  then show ?thesis by (simp add: SetBase fetched_since_def set_base_def)
next
  case (SetMargin p)
  assume "fetched_since n s"
  then show ?thesis by (simp add: SetMargin fetched_since_def set_margin_def)
next
  case (SetCacheTtl m)
  assume "fetched_since n s"
  then show ?thesis by (simp add: SetCacheTtl fetched_since_def set_cache_ttl_def)
next
  case (GetRates now nt)
  assume "fetched_since n s"
  then show ?thesis by (simp add: GetRates fetched_since_get_rates)
next
  case (RefreshRates now nt)
  assume "fetched_since n s"
  then show ?thesis
    by (simp add: RefreshRates refresh_rates_get fetched_since_get_rates fetched_since_clear)
qed

lemma fetched_since_run: "fetched_since n s \<Longrightarrow> fetched_since n (run ops s)"
  by (induction ops arbitrary: s) (simp_all add: fetched_since_step)

lemma served_fetched_since:
  assumes inv: "fetched_since n s" and served: "get_rates now nt s = (Inr t, s')"
  shows "(base_currency (config s'), Inr t) \<in> set (drop n (fetch_log s'))"
proof -
  have "fetched_since n s'"
    using fetched_since_get_rates [OF inv, of now nt] served by simp
  moreover have "rates (cache s') = t \<and> t \<noteq> []"
  proof (cases "cache_valid now s")
    case (Inl e)
    with served show ?thesis by (simp add: get_rates_raise)
  next
    case (Inr v)
    show ?thesis
    proof (cases v)
      case True
      with Inr served show ?thesis
        by (auto simp: get_rates_hit cache_valid_def split: if_splits)
    next
      case False
      with Inr have miss: "cache_valid now s = Inr False" by simp
      from served have "fetch_rates (api_endpoints (config s)) nt (base_currency (config s)) = Inr t"
        using get_rates_miss_result [OF miss, of nt] by simp
      then show ?thesis
        using served fetch_rates_success by (auto simp: get_rates_miss [OF miss] Let_def)
    qed
  qed
  ultimately show ?thesis by (auto simp: fetched_since_def)
qed

subsection \<open>The base along a sequence of calls\<close>

lemma base_step_keep:
  "\<forall>c. x \<noteq> SetBase c \<Longrightarrow> base_currency (config (step x s)) = base_currency (config s)"
  by (cases x)
     (simp_all add: set_margin_def set_cache_ttl_def get_rates_config
        refresh_rates_get clear_entry_def)

lemma base_step_set: "base_currency (config (step (SetBase c) s)) = upper c"
  by (simp add: set_base_def)

lemma base_run:
  "base_currency (config (run ops s)) = base_currency (config s) \<or>
   (\<exists>c. SetBase c \<in> set ops \<and> base_currency (config (run ops s)) = upper c)"
proof (induction ops arbitrary: s)
  case Nil
  then show ?case by simp
next
  case (Cons x xs)
  show ?case
  proof (cases "\<exists>c. x = SetBase c")
    case True
    then obtain c where x: "x = SetBase c" by blast
    from Cons.IH [of "step x s"] show ?thesis
      using base_step_set [of c s] by (auto simp: x)
  next
    case False
    then have "base_currency (config (step x s)) = base_currency (config s)"
      by (simp add: base_step_keep)
    with Cons.IH [of "step x s"] show ?thesis by auto
  qed
qed

subsection \<open>Evaluation of the concrete situations\<close>

lemma example_cached_cfg:
  "base_currency (config example_cached) = ''usd''"
  "cache_ttl_minutes (config example_cached) = 60"
  "margin_percent (config example_cached) = 0"
  "rates (cache example_cached) = [(''EUR'', JNum (9 / 10))]"
  "last_fetch (cache example_cached) = Some 0"
  "base (cache example_cached) = Some ''usd''"
  "fetch_log example_cached = []"
  by (simp_all add: example_cached_def init_state_def init_config_def)

lemma example_cached_config: "config example_cached = init_config"
  by (simp add: example_cached_def init_state_def)

lemma example_cached_hit:
  "get_rates 1 nt example_cached = (Inr [(''EUR'', JNum (9 / 10))], example_cached)"
  by (simp add: get_rates_def cache_valid_def timedelta_minutes_def example_cached_def
        init_state_def init_config_def init_cache_def)

lemma code_EUR: "code (Currency ''EUR'') = ''EUR''"
  by (simp add: Currency_def str_eval)

lemma code_ZZZ: "code (Currency ''ZZZ'') = ''ZZZ''"
  by (simp add: Currency_def str_eval)

lemma fetch_live: "fetch_rates (api_endpoints init_config) net_live b =
    Inr [(''USD'', JNum 1), (''EUR'', JNum (9 / 10))]"
  by (simp add: fetch_rates_def init_config_def net_live_def upper_keys_def
        upper_def upper_char_def)

lemma fetch_down: "fetch_rates (api_endpoints init_config) net_down b =
    Inl (ConnectionError [''https://open.er-api.com/v6/latest/{BASE}: timeout''])"
  by (simp add: fetch_rates_def init_config_def net_down_def)

lemma fetch_unsupported:
  "fetch_rates (api_endpoints init_config) net_unsupported ''XXX'' = Inl (ConnectionError [])"
  by (simp add: fetch_rates_def init_config_def net_unsupported_def lower_def lower_char_def
        char_of_def bit_Suc_0_iff)

section \<open>Conversion\<close>

text \<open>
  Claim C1. Let the lookup \<^verbatim>\<open>_get_rates()\<close> return a table that holds the number \<open>r\<close> under
  the code of the handle. Then \<^verbatim>\<open>_convert(a)\<close> returns \<open>a * r * (1 - m / 100)\<close> when the
  configured margin \<open>m\<close> is positive and \<open>a * r\<close> when it is zero, and \<^verbatim>\<open>a * handle\<close> and
  \<^verbatim>\<open>handle * a\<close> are that call. In particular \<^verbatim>\<open>100 * EUR\<close> is \<open>100 * r\<close> at margin 0 and
  \<open>100 * r * 0.965\<close> at margin 3.5. The rate need not be positive for this.
\<close>

theorem convert_formula:
  assumes "get_rates now nt s = (Inr t, s')"
    and "map_of t (code h) = Some (JNum r)"
  shows "(0 < margin_percent (config s) \<longrightarrow>
            currency_convert h a now nt s =
              (Inr (a * r * (1 - margin_percent (config s) / 100)), s')) \<and>
         (margin_percent (config s) = 0 \<longrightarrow>
            currency_convert h a now nt s = (Inr (a * r), s')) \<and>
         currency_rmul h a now nt s = currency_convert h a now nt s \<and>
         currency_mul h a now nt s = currency_convert h a now nt s \<and>
         (margin_percent (config s) = 0 \<longrightarrow>
            currency_rmul h 100 now nt s = (Inr (100 * r), s')) \<and>
         (margin_percent (config s) = 3.5 \<longrightarrow>
            currency_rmul h 100 now nt s = (Inr (100 * r * 0.965), s'))"
proof -
  note cv = convert_value [OF assms]
  have "0 < margin_percent (config s) \<longrightarrow>
          currency_convert h a now nt s =
            (Inr (a * r * (1 - margin_percent (config s) / 100)), s')"
    by (simp add: cv)
  moreover have "margin_percent (config s) = 0 \<longrightarrow>
          currency_convert h a now nt s = (Inr (a * r), s')"
    by (simp add: cv)
  moreover have "margin_percent (config s) = 0 \<longrightarrow>
          currency_rmul h 100 now nt s = (Inr (100 * r), s')"
    by (simp add: currency_rmul_def cv)
  moreover have "margin_percent (config s) = 3.5 \<longrightarrow>
          currency_rmul h 100 now nt s = (Inr (100 * r * 0.965), s')"
    by (simp add: currency_rmul_def cv)
  ultimately show ?thesis
    by (simp only: currency_rmul_def currency_mul_def simp_thms)
qed

theorem convert_formula_witness:
  "get_rates 1 net_down example_cached = (Inr [(''EUR'', JNum (9 / 10))], example_cached) \<and>
   map_of [(''EUR'', JNum (9 / 10))] (code (Currency ''EUR'')) = Some (JNum (9 / 10)) \<and>
   margin_percent (config example_cached) = 0 \<and>
   currency_rmul (Currency ''EUR'') 100 1 net_down example_cached = (Inr 90, example_cached) \<and>
   get_rates 1 net_down (set_margin 3.5 example_cached) =
     (Inr [(''EUR'', JNum (9 / 10))], set_margin 3.5 example_cached) \<and>
   0 < margin_percent (config (set_margin 3.5 example_cached)) \<and>
   margin_percent (config (set_margin 3.5 example_cached)) = 3.5 \<and>
   currency_rmul (Currency ''EUR'') 100 1 net_down (set_margin 3.5 example_cached) =
     (Inr 86.85, set_margin 3.5 example_cached)"
proof -
  have g0: "get_rates 1 net_down example_cached =
              (Inr [(''EUR'', JNum (9 / 10))], example_cached)"
    by (rule example_cached_hit)
  have g1: "get_rates 1 net_down (set_margin 3.5 example_cached) =
              (Inr [(''EUR'', JNum (9 / 10))], set_margin 3.5 example_cached)"
    by (simp add: get_rates_def cache_valid_def timedelta_minutes_def example_cached_def
          init_state_def init_config_def init_cache_def set_margin_def)
  have m: "map_of [(''EUR'', JNum (9 / 10))] (code (Currency ''EUR'')) = Some (JNum (9 / 10))"
    by (simp add: code_EUR)
  have m0: "margin_percent (config example_cached) = 0"
    by (simp add: example_cached_def init_state_def init_config_def)
  have m1: "margin_percent (config (set_margin 3.5 example_cached)) = 3.5"
    by (simp add: set_margin_def)
  show ?thesis
    using convert_formula [OF g0 m, of 100] convert_formula [OF g1 m, of 100] g0 g1 m m0 m1
    by simp
qed

section \<open>The normalizer\<close>

text \<open>
  What the parser does on an object \<open>d\<close> whose \<^verbatim>\<open>rates\<close> field and field named by the base,
  when present, hold objects. \<^verbatim>\<open>_parse_api_response\<close> tries three
  shapes in this order and the first that matches decides: a \<^verbatim>\<open>rates\<close> field holding a
  mapping \<open>m\<close> gives \<open>m\<close> with its codes upper-cased, whatever else \<open>d\<close> holds; without a
  \<^verbatim>\<open>rates\<close> field, a field named by the lower-cased base holding a mapping \<open>m\<close> gives \<open>m\<close>
  with its codes upper-cased; without either field, an object whose values are all numbers
  gives \<open>d\<close> itself with its codes upper-cased; and an object of none of these shapes gives
  the empty mapping. The codes of a result are the upper-cased codes of the mapping used.
  The three payloads of the specification give the tables it names; the third one for
  every base other than \<^verbatim>\<open>eur\<close> and \<^verbatim>\<open>gbp\<close>, which would make the second shape match first.
\<close>

proposition parse_api_response_shapes:
  "(map_of d ''rates'' = Some (JObj m) \<longrightarrow>
      parse_api_response (JObj d) b = Inr (upper_keys m)) \<and>
   (''rates'' \<notin> fst ` set d \<and> map_of d (lower b) = Some (JObj m) \<longrightarrow>
      parse_api_response (JObj d) b = Inr (upper_keys m)) \<and>
   (''rates'' \<notin> fst ` set d \<and> lower b \<notin> fst ` set d \<and> (\<forall>v \<in> snd ` set d. is_number v) \<longrightarrow>
      parse_api_response (JObj d) b = Inr (upper_keys d)) \<and>
   (''rates'' \<notin> fst ` set d \<and> lower b \<notin> fst ` set d \<and> \<not> (\<forall>v \<in> snd ` set d. is_number v) \<longrightarrow>
      parse_api_response (JObj d) b = Inr []) \<and>
   fst ` set (upper_keys m) = upper ` fst ` set m \<and>
   parse_api_response (JObj [(''rates'', JObj [(''eur'', JNum 0.9)])]) b =
     Inr [(''EUR'', JNum 0.9)] \<and>
   parse_api_response (JObj [(''usd'', JObj [(''eur'', JNum 0.9)])]) ''usd'' =
     Inr [(''EUR'', JNum 0.9)] \<and>
   (lower b \<noteq> ''eur'' \<and> lower b \<noteq> ''gbp'' \<longrightarrow>
      parse_api_response (JObj [(''eur'', JNum 0.9), (''gbp'', JNum 0.8)]) b =
        Inr [(''EUR'', JNum 0.9), (''GBP'', JNum 0.8)])"
  using parse_rates_shape [of d m b] parse_base_shape [of d b m] parse_direct_shape [of d b]
    parse_no_shape [of d b] upper_keys_dom [of m] parse_example_rates [of b] parse_example_base
    parse_example_direct [of b]
  by blast

proposition parse_api_response_shapes_instances:
  "map_of [(''rates'', JObj [(''eur'', JNum 0.9)])] ''rates'' = Some (JObj [(''eur'', JNum 0.9)]) \<and>
   parse_api_response (JObj [(''rates'', JObj [(''eur'', JNum 0.9)])]) ''usd'' =
     Inr (upper_keys [(''eur'', JNum 0.9)]) \<and>
   ''rates'' \<notin> fst ` set [(''usd'', JObj [(''eur'', JNum 0.9)])] \<and>
   map_of [(''usd'', JObj [(''eur'', JNum 0.9)])] (lower ''USD'') = Some (JObj [(''eur'', JNum 0.9)]) \<and>
   parse_api_response (JObj [(''usd'', JObj [(''eur'', JNum 0.9)])]) ''USD'' =
     Inr (upper_keys [(''eur'', JNum 0.9)]) \<and>
   ''rates'' \<notin> fst ` set [(''eur'', JNum 0.9), (''gbp'', JNum 0.8)] \<and>
   lower ''usd'' \<notin> fst ` set [(''eur'', JNum 0.9), (''gbp'', JNum 0.8)] \<and>
   list_all is_number (map snd [(''eur'', JNum 0.9), (''gbp'', JNum 0.8)]) \<and>
   lower ''usd'' \<noteq> ''eur'' \<and> lower ''usd'' \<noteq> ''gbp'' \<and>
   parse_api_response (JObj [(''eur'', JNum 0.9), (''gbp'', JNum 0.8)]) ''usd'' =
     Inr [(''EUR'', JNum 0.9), (''GBP'', JNum 0.8)] \<and>
   ''rates'' \<notin> fst ` set [(''result'', JStr ''error'')] \<and>
   lower ''usd'' \<notin> fst ` set [(''result'', JStr ''error'')] \<and>
   \<not> list_all is_number (map snd [(''result'', JStr ''error'')]) \<and>
   parse_api_response (JObj [(''result'', JStr ''error'')]) ''usd'' = Inr []"
  using parse_api_response_shapes [of "[(''rates'', JObj [(''eur'', JNum 0.9)])]"
          "[(''eur'', JNum 0.9)]" "''usd''"]
    parse_api_response_shapes [of "[(''usd'', JObj [(''eur'', JNum 0.9)])]"
          "[(''eur'', JNum 0.9)]" "''USD''"]
    parse_api_response_shapes [of "[(''eur'', JNum 0.9), (''gbp'', JNum 0.8)]" "[]" "''usd''"]
    parse_api_response_shapes [of "[(''result'', JStr ''error'')]" "[]" "''usd''"]
  by (simp add: lower_def lower_char_def char_of_def bit_Suc_0_iff)

text \<open>
  Claim C2. The claim gives the third shape, an object whose every value is a number, as
  the mapping itself, and its third example \<^verbatim>\<open>{"eur": 0.9, "gbp": 0.8}\<close> as the table with
  \<^verbatim>\<open>EUR\<close> and \<^verbatim>\<open>GBP\<close> for whatever base. The source tests the first two shapes by the
  presence of the key alone and then calls \<^verbatim>\<open>.items()\<close> on the value, without the type test
  that the third shape has. So with the base \<^verbatim>\<open>eur\<close> that payload raises \<^verbatim>\<open>AttributeError\<close>
  (with the base \<^verbatim>\<open>usd\<close> it gives the table), and so does the direct table
  \<^verbatim>\<open>{"usd": 1, "eur": 0.9}\<close> with the base \<^verbatim>\<open>usd\<close>, although every value of either object is a
  number; \<^verbatim>\<open>{"rates": null}\<close> raises as well instead of giving the empty mapping.
\<close>

theorem parse_direct_table_with_base_key:
  "list_all is_number (map snd [(''eur'', JNum 0.9), (''gbp'', JNum 0.8)]) \<and>
   parse_api_response (JObj [(''eur'', JNum 0.9), (''gbp'', JNum 0.8)]) ''eur'' =
     Inl AttributeError \<and>
   parse_api_response (JObj [(''eur'', JNum 0.9), (''gbp'', JNum 0.8)]) ''usd'' =
     Inr [(''EUR'', JNum 0.9), (''GBP'', JNum 0.8)] \<and>
   list_all is_number (map snd [(''usd'', JNum 1), (''eur'', JNum 0.9)]) \<and>
   parse_api_response (JObj [(''usd'', JNum 1), (''eur'', JNum 0.9)]) ''usd'' =
     Inl AttributeError \<and>
   parse_api_response (JObj [(''rates'', JNull)]) ''usd'' = Inl AttributeError"
  by (simp add: upper_keys_def str_eval)

section \<open>The rate cache\<close>

text \<open>
  Claim C3. Let the configured TTL be a duration \<open>ttl\<close> (\<^verbatim>\<open>timedelta(minutes=...)\<close> builds
  it). If the entry is non-empty, its recorded base is the configured base and the time
  since its fetch timestamp is strictly below \<open>ttl\<close>, then \<^verbatim>\<open>_get_rates\<close> returns the cached
  table and leaves the whole state as it was: the cache entry is unchanged and the log of
  adapter calls has no new entry. If the entry is not valid by that predicate, the lookup
  returns what one call of \<^verbatim>\<open>_fetch_rates\<close> for the configured base returns, and the log
  grows by exactly that one call.
\<close>

theorem cache_hit_or_single_fetch:
  assumes "timedelta_minutes (cache_ttl_minutes (config s)) = Inr ttl"
  shows "(spec_entry_valid now ttl s \<longrightarrow> get_rates now nt s = (Inr (rates (cache s)), s)) \<and>
         (\<not> spec_entry_valid now ttl s \<longrightarrow>
            fst (get_rates now nt s) =
              fetch_rates (api_endpoints (config s)) nt (base_currency (config s)) \<and>
            fetch_log (snd (get_rates now nt s)) =
              fetch_log s @
                [(base_currency (config s),
                  fetch_rates (api_endpoints (config s)) nt (base_currency (config s)))])"
proof (cases "spec_entry_valid now ttl s")
  case True
  then have "cache_valid now s = Inr True"
    using cache_valid_spec [OF assms, of now] by simp
  with True show ?thesis by (simp add: get_rates_hit)
next
  case False
  then have "cache_valid now s = Inr False"
    using cache_valid_spec [OF assms, of now] by simp
  with False show ?thesis by (simp add: get_rates_miss_result get_rates_miss_log)
qed

theorem cache_hit_or_single_fetch_witness:
  "timedelta_minutes (cache_ttl_minutes (config example_cached)) = Inr 3600000000 \<and>
   spec_entry_valid 3599999999 3600000000 example_cached \<and>
   get_rates 3599999999 net_live example_cached =
     (Inr (rates (cache example_cached)), example_cached) \<and>
   \<not> spec_entry_valid 3600000000 3600000000 example_cached \<and>
   fetch_log (snd (get_rates 3600000000 net_live example_cached)) =
     [(''usd'', fetch_rates (api_endpoints (config example_cached)) net_live ''usd'')]"
proof -
  have t: "timedelta_minutes (cache_ttl_minutes (config example_cached)) = Inr 3600000000"
    by (simp add: timedelta_minutes_def example_cached_cfg)
  have v: "spec_entry_valid 3599999999 3600000000 example_cached"
    by (simp add: spec_entry_valid_def example_cached_cfg)
  have n: "\<not> spec_entry_valid 3600000000 3600000000 example_cached"
    by (simp add: spec_entry_valid_def example_cached_cfg)
  show ?thesis
    using cache_hit_or_single_fetch [OF t, of 3599999999 net_live]
      cache_hit_or_single_fetch [OF t, of 3600000000 net_live] t v n
    by (simp add: example_cached_cfg)
qed

section \<open>Rate lookup on a handle\<close>

text \<open>
  Claim C6. Let \<^verbatim>\<open>_get_rates()\<close> return the table \<open>t\<close>. If the code of the handle is not a
  key of \<open>t\<close>, reading \<^verbatim>\<open>rate\<close> raises the not-found error (the source raises \<^verbatim>\<open>ValueError\<close>
  with the text \<^verbatim>\<open>Currency '...' not found\<close>) and so returns no value at all; if the code
  is a key of \<open>t\<close>, \<^verbatim>\<open>rate\<close> returns the entry stored under it. An entry that is JSON
  \<^verbatim>\<open>null\<close> is no rate: \<^verbatim>\<open>rates.get\<close> gives \<^verbatim>\<open>None\<close> for it as for a missing key.
\<close>

theorem rate_lookup:
  assumes "get_rates now nt s = (Inr t, s')"
  shows "(map_of t (code h) = None \<longrightarrow> currency_rate h now nt s = (Inl (not_found h), s')) \<and>
         (\<forall>v. map_of t (code h) = Some v \<and> v \<noteq> JNull \<longrightarrow>
              currency_rate h now nt s = (Inr v, s'))"
  using rate_absent [OF assms, of h] rate_present [OF assms, of h] by blast

theorem rate_lookup_witness:
  "get_rates 1 net_down example_cached = (Inr [(''EUR'', JNum (9 / 10))], example_cached) \<and>
   map_of [(''EUR'', JNum (9 / 10))] (code (Currency ''zzz'')) = None \<and>
   currency_rate (Currency ''zzz'') 1 net_down example_cached =
     (Inl (ValueError (''Currency '' @ [CHR 0x27] @ ''ZZZ'' @ [CHR 0x27] @ '' not found'')),
      example_cached) \<and>
   map_of [(''EUR'', JNum (9 / 10))] (code (Currency ''eur'')) = Some (JNum (9 / 10)) \<and>
   JNum (9 / 10) \<noteq> JNull \<and>
   currency_rate (Currency ''eur'') 1 net_down example_cached =
     (Inr (JNum (9 / 10)), example_cached)"
proof -
  have g: "get_rates 1 net_down example_cached =
             (Inr [(''EUR'', JNum (9 / 10))], example_cached)"
    by (rule example_cached_hit)
  have z: "code (Currency ''zzz'') = ''ZZZ''" and e: "code (Currency ''eur'') = ''EUR''"
    by (simp_all add: Currency_def str_eval)
  show ?thesis
    using rate_lookup [OF g, of "Currency ''zzz''"] rate_lookup [OF g, of "Currency ''eur''"] g
    by (simp add: z e not_found_def)
qed

section \<open>Changing the base currency\<close>

text \<open>
  Claim C4. \<^verbatim>\<open>set_base(c)\<close> stores the upper-cased \<open>c\<close> as the base and clears the entry:
  the rate table is empty and there is no fetch timestamp. The next lookup therefore
  returns what a call of \<^verbatim>\<open>_fetch_rates\<close> for the new base returns, and the log grows by
  that call. And after the change no lookup serves a table from before it: in the state
  reached from \<^verbatim>\<open>set_base(c)\<close> by any sequence of operations, a table that a lookup returns
  is the result of an adapter call made after the change of base, for the base that is
  configured when the table is served. (Calls run one at a time here.)
\<close>

theorem set_base_clears_cache:
  "rates (cache (set_base c s)) = [] \<and>
   last_fetch (cache (set_base c s)) = None \<and>
   base_currency (config (set_base c s)) = upper c \<and>
   fst (get_rates now nt (set_base c s)) = fetch_rates (api_endpoints (config s)) nt (upper c) \<and>
   fetch_log (snd (get_rates now nt (set_base c s))) =
     fetch_log s @ [(upper c, fetch_rates (api_endpoints (config s)) nt (upper c))] \<and>
   (\<forall>ops now' nt' t s'.
      get_rates now' nt' (run ops (set_base c s)) = (Inr t, s') \<longrightarrow>
      (base_currency (config s'), Inr t) \<in> set (drop (length (fetch_log s)) (fetch_log s')))"
proof -
  have "fst (get_rates now nt (set_base c s)) =
          fetch_rates (api_endpoints (config s)) nt (upper c)"
    by (simp add: get_rates_miss_result [OF set_base_valid] set_base_fields)
  moreover have "fetch_log (snd (get_rates now nt (set_base c s))) =
          fetch_log s @ [(upper c, fetch_rates (api_endpoints (config s)) nt (upper c))]"
    by (simp add: get_rates_miss_log [OF set_base_valid] set_base_fields)
  moreover have "\<forall>ops now' nt' t s'.
      get_rates now' nt' (run ops (set_base c s)) = (Inr t, s') \<longrightarrow>
      (base_currency (config s'), Inr t) \<in> set (drop (length (fetch_log s)) (fetch_log s'))"
  proof (intro allI impI)
    fix ops now' nt' t s'
    assume served: "get_rates now' nt' (run ops (set_base c s)) = (Inr t, s')"
    have "fetched_since (length (fetch_log s)) (run ops (set_base c s))"
      by (intro fetched_since_run fetched_since_set_base)
    from served_fetched_since [OF this served]
    show "(base_currency (config s'), Inr t) \<in> set (drop (length (fetch_log s)) (fetch_log s'))" .
  qed
  ultimately show ?thesis
    by (simp only: set_base_fields simp_thms)
qed

theorem set_base_clears_cache_witness:
  "get_rates 7 net_live (run [SetMargin 2] (set_base ''eur'' example_cached)) =
     (Inr [(''USD'', JNum 1), (''EUR'', JNum (9 / 10))],
      snd (get_rates 7 net_live (run [SetMargin 2] (set_base ''eur'' example_cached)))) \<and>
   base_currency (config (snd (get_rates 7 net_live
      (run [SetMargin 2] (set_base ''eur'' example_cached))))) = ''EUR'' \<and>
   (''EUR'', Inr [(''USD'', JNum 1), (''EUR'', JNum (9 / 10))]) \<in>
     set (drop (length (fetch_log example_cached))
       (fetch_log (snd (get_rates 7 net_live
          (run [SetMargin 2] (set_base ''eur'' example_cached))))))"
proof -
  let ?s = "set_margin 2 (set_base ''eur'' example_cached)"
  have r: "run [SetMargin 2] (set_base ''eur'' example_cached) = ?s"
    by simp
  have v: "cache_valid 7 ?s = Inr False"
    by (simp add: cache_valid_def set_margin_def set_base_def)
  have c: "config ?s = init_config\<lparr>base_currency := ''EUR'', margin_percent := 2\<rparr>"
    by (simp add: set_margin_def set_base_def example_cached_config str_eval)
  have f: "fst (get_rates 7 net_live ?s) = Inr [(''USD'', JNum 1), (''EUR'', JNum (9 / 10))]"
    using fetch_live [of "''EUR''"]
    by (simp add: get_rates_miss_result [OF v] c init_config_def)
  have b: "base_currency (config (snd (get_rates 7 net_live ?s))) = ''EUR''"
    by (simp add: get_rates_config c)
  have g: "get_rates 7 net_live (run [SetMargin 2] (set_base ''eur'' example_cached)) =
     (Inr [(''USD'', JNum 1), (''EUR'', JNum (9 / 10))],
      snd (get_rates 7 net_live (run [SetMargin 2] (set_base ''eur'' example_cached))))"
    unfolding r using f by (simp add: prod_eq_iff)
  from set_base_clears_cache [of "''eur''" example_cached 7 net_live]
  have "\<forall>ops now' nt' t s'.
      get_rates now' nt' (run ops (set_base ''eur'' example_cached)) = (Inr t, s') \<longrightarrow>
      (base_currency (config s'), Inr t) \<in>
        set (drop (length (fetch_log example_cached)) (fetch_log s'))"
    by (elim conjE)
  from this [rule_format, OF g] g b show ?thesis
    unfolding r by simp
qed

section \<open>A failed fetch\<close>

text \<open>
  Claim C5, as stated, fails for \<^verbatim>\<open>refresh_rates()\<close>: with a table in the cache and the
  network down, \<^verbatim>\<open>refresh_rates\<close> raises the \<^verbatim>\<open>ConnectionError\<close> and the cache is left with
  an empty table and no timestamp. The previous entry is not left in place, because
  \<^verbatim>\<open>refresh_rates\<close> clears it before it fetches.
\<close>

theorem refresh_failure_counterexample:
  "rates (cache example_cached) = [(''EUR'', JNum (9 / 10))] \<and>
   last_fetch (cache example_cached) = Some 0 \<and>
   fst (refresh_rates 1 net_down example_cached) =
     Inl (ConnectionError [''https://open.er-api.com/v6/latest/{BASE}: timeout'']) \<and>
   rates (cache (snd (refresh_rates 1 net_down example_cached))) = [] \<and>
   last_fetch (cache (snd (refresh_rates 1 net_down example_cached))) = None \<and>
   cache (snd (refresh_rates 1 net_down example_cached)) \<noteq> cache example_cached"
proof -
  let ?e = "ConnectionError [''https://open.er-api.com/v6/latest/{BASE}: timeout'']"
  have r: "fst (refresh_rates 1 net_down example_cached) = Inl ?e"
    by (simp add: refresh_rates_result example_cached_config fetch_down)
  then have "refresh_rates 1 net_down example_cached =
               (Inl ?e, snd (refresh_rates 1 net_down example_cached))"
    by (simp add: prod_eq_iff)
  from refresh_rates_failure_cache [OF this]
  have c: "cache (snd (refresh_rates 1 net_down example_cached)) =
             (cache example_cached)\<lparr>rates := [], last_fetch := None\<rparr>"
    by (simp add: clear_entry_fields)
  have n: "cache (snd (refresh_rates 1 net_down example_cached)) \<noteq> cache example_cached"
  proof
    assume "cache (snd (refresh_rates 1 net_down example_cached)) = cache example_cached"
    then have "rates (cache (snd (refresh_rates 1 net_down example_cached))) =
                 rates (cache example_cached)"
      by simp
    then show False by (simp add: c example_cached_cfg)
  qed
  from r n show ?thesis by (simp add: c example_cached_cfg)
qed

text \<open>
  Claim C5, amended. A lookup that raises leaves the cache entry and the configuration exactly as
  they were immediately before it. When the entry is not valid and \<^verbatim>\<open>_fetch_rates\<close> fails
  for the configured base, \<^verbatim>\<open>_get_rates\<close> raises that same error, which is the
  \<^verbatim>\<open>ConnectionError\<close> of the exhausted endpoint list, and the entry, stale or not, stays in
  place. When \<^verbatim>\<open>refresh_rates()\<close> makes the lookup, the error reaches the caller of
  \<^verbatim>\<open>refresh_rates\<close> as well, but the entry is the one that \<^verbatim>\<open>refresh_rates\<close> has cleared
  before the fetch: empty table, no timestamp, recorded base and fallback flag as before.
  The table of before the refresh is not kept.
\<close>

theorem failed_fetch_keeps_entry:
  "(get_rates now nt s = (Inl e, s') \<longrightarrow> cache s' = cache s \<and> config s' = config s) \<and>
   (cache_valid now s = Inr False \<and>
    fetch_rates (api_endpoints (config s)) nt (base_currency (config s)) = Inl e \<longrightarrow>
      fst (get_rates now nt s) = Inl e \<and> cache (snd (get_rates now nt s)) = cache s) \<and>
   (fetch_rates (api_endpoints (config s)) nt (base_currency (config s)) = Inl e \<longrightarrow>
      fst (refresh_rates now nt s) = Inl e \<and>
      cache (snd (refresh_rates now nt s)) = cache (clear_entry s) \<and>
      cache (clear_entry s) = (cache s)\<lparr>rates := [], last_fetch := None\<rparr>) \<and>
   (fetch_rates (api_endpoints (config s)) nt (base_currency (config s)) = Inl e \<longrightarrow>
      (\<exists>errs. e = ConnectionError errs))"
proof -
  have a: "get_rates now nt s = (Inl e, s') \<longrightarrow> cache s' = cache s \<and> config s' = config s"
    by (auto dest: get_rates_failure_cache get_rates_config')
  have b: "cache_valid now s = Inr False \<and>
    fetch_rates (api_endpoints (config s)) nt (base_currency (config s)) = Inl e \<longrightarrow>
      fst (get_rates now nt s) = Inl e \<and> cache (snd (get_rates now nt s)) = cache s"
  proof (intro impI, elim conjE)
    assume v: "cache_valid now s = Inr False"
      and f: "fetch_rates (api_endpoints (config s)) nt (base_currency (config s)) = Inl e"
    have r: "fst (get_rates now nt s) = Inl e"
      using get_rates_miss_result [OF v, of nt] f by simp
    then have "get_rates now nt s = (Inl e, snd (get_rates now nt s))"
      by (simp add: prod_eq_iff)
    from get_rates_failure_cache [OF this] r
    show "fst (get_rates now nt s) = Inl e \<and> cache (snd (get_rates now nt s)) = cache s"
      by simp
  qed
  have c: "fetch_rates (api_endpoints (config s)) nt (base_currency (config s)) = Inl e \<longrightarrow>
      fst (refresh_rates now nt s) = Inl e \<and>
      cache (snd (refresh_rates now nt s)) = cache (clear_entry s) \<and>
      cache (clear_entry s) = (cache s)\<lparr>rates := [], last_fetch := None\<rparr>"
  proof
    assume f: "fetch_rates (api_endpoints (config s)) nt (base_currency (config s)) = Inl e"
    then have r: "fst (refresh_rates now nt s) = Inl e"
      by (simp add: refresh_rates_result)
    then have "refresh_rates now nt s = (Inl e, snd (refresh_rates now nt s))"
      by (simp add: prod_eq_iff)
    from refresh_rates_failure_cache [OF this] r
    show "fst (refresh_rates now nt s) = Inl e \<and>
      cache (snd (refresh_rates now nt s)) = cache (clear_entry s) \<and>
      cache (clear_entry s) = (cache s)\<lparr>rates := [], last_fetch := None\<rparr>"
      by (simp add: clear_entry_fields)
  qed
  have d: "fetch_rates (api_endpoints (config s)) nt (base_currency (config s)) = Inl e \<longrightarrow>
      (\<exists>errs. e = ConnectionError errs)"
    using fetch_rates_failure by blast
  from a b c d show ?thesis by (intro conjI)
qed

theorem failed_fetch_keeps_entry_witness:
  "cache_valid 3600000000 example_cached = Inr False \<and>
   fetch_rates (api_endpoints (config example_cached)) net_down
       (base_currency (config example_cached)) =
     Inl (ConnectionError [''https://open.er-api.com/v6/latest/{BASE}: timeout'']) \<and>
   get_rates 3600000000 net_down example_cached =
     (Inl (ConnectionError [''https://open.er-api.com/v6/latest/{BASE}: timeout'']),
      snd (get_rates 3600000000 net_down example_cached)) \<and>
   cache (snd (get_rates 3600000000 net_down example_cached)) = cache example_cached \<and>
   rates (cache (snd (get_rates 3600000000 net_down example_cached))) =
     [(''EUR'', JNum (9 / 10))] \<and>
   fst (refresh_rates 1 net_down example_cached) =
     Inl (ConnectionError [''https://open.er-api.com/v6/latest/{BASE}: timeout'']) \<and>
   rates (cache (snd (refresh_rates 1 net_down example_cached))) = [] \<and>
   last_fetch (cache (snd (refresh_rates 1 net_down example_cached))) = None"
proof -
  let ?e = "ConnectionError [''https://open.er-api.com/v6/latest/{BASE}: timeout'']"
  have v: "cache_valid 3600000000 example_cached = Inr False"
    by (simp add: cache_valid_def timedelta_minutes_def example_cached_cfg)
  have f: "fetch_rates (api_endpoints (config example_cached)) net_down
             (base_currency (config example_cached)) = Inl ?e"
    by (simp add: example_cached_config fetch_down)
  note t1 = failed_fetch_keeps_entry [of 3600000000 net_down example_cached ?e
              "snd (get_rates 3600000000 net_down example_cached)"]
  note t2 = failed_fetch_keeps_entry [of 1 net_down example_cached ?e
              "snd (refresh_rates 1 net_down example_cached)"]
  have g: "get_rates 3600000000 net_down example_cached =
             (Inl ?e, snd (get_rates 3600000000 net_down example_cached))"
    using t1 v f by (simp add: prod_eq_iff)
  show ?thesis
    using t1 t2 v f g by (simp add: example_cached_cfg)
qed

section \<open>Exhausted endpoints\<close>

text \<open>
  Claim C7. With the default endpoint list, the base \<^verbatim>\<open>XXX\<close> and an endpoint that answers
  with an error document, the one endpoint is attempted and yields an empty table, and
  \<^verbatim>\<open>_fetch_rates\<close> raises \<^verbatim>\<open>ConnectionError\<close> with an empty list of errors: the attempted
  endpoint has no diagnostic entry. (When every attempt raises, there is one entry per
  endpoint: \<open>fetch_rates_all_raise\<close>.)
\<close>

theorem fetch_rates_silent_endpoint:
  "fetch_rates (api_endpoints init_config) net_unsupported ''XXX'' = Inl (ConnectionError []) \<and>
   length (api_endpoints init_config) = 1 \<and>
   net_unsupported 0 (hd (api_endpoints init_config)) (lower ''XXX'') (upper ''XXX'') =
     Body (JObj [(''result'', JStr ''error''), (''error-type'', JStr ''unsupported-code'')]) \<and>
   parse_api_response
     (JObj [(''result'', JStr ''error''), (''error-type'', JStr ''unsupported-code'')])
     (lower ''XXX'') = Inr []"
  by (simp add: fetch_unsupported)
     (simp add: init_config_def net_unsupported_def lower_def lower_char_def char_of_def
        bit_Suc_0_iff)

section \<open>Operators\<close>

text \<open>
  Claim C8. Every operator goes through \<^verbatim>\<open>_convert\<close>, and so applies the margin, except
  \<^verbatim>\<open>__rtruediv__\<close>, which divides by the plain \<^verbatim>\<open>rate\<close>. At margin 50 and a rate of 0.9,
  \<^verbatim>\<open>_convert(1)\<close> is 0.45 and \<open>9 / 0.45\<close> is 20: \<^verbatim>\<open>9 // EUR\<close> is 20, as the claim says of
  floor division, but \<^verbatim>\<open>9 / EUR\<close> is \<open>9 / 0.9 = 10\<close>, not the 20 the claim says.
\<close>

theorem rtruediv_skips_margin:
  "margin_percent (config (set_margin 50 example_cached)) = 50 \<and>
   currency_convert (Currency ''EUR'') 1 1 net_down (set_margin 50 example_cached) =
     (Inr (9 / 20), set_margin 50 example_cached) \<and>
   py_truediv 9 (9 / 20) = Inr 20 \<and>
   currency_rtruediv (Currency ''EUR'') 9 1 net_down (set_margin 50 example_cached) =
     (Inr 10, set_margin 50 example_cached) \<and>
   currency_rtruediv (Currency ''EUR'') 9 1 net_down (set_margin 50 example_cached) \<noteq>
     (py_truediv 9 (9 / 20), set_margin 50 example_cached) \<and>
   currency_rfloordiv (Currency ''EUR'') 9 1 net_down (set_margin 50 example_cached) =
     (Inr 20, set_margin 50 example_cached)"
proof -
  have g: "get_rates 1 net_down (set_margin 50 example_cached) =
             (Inr [(''EUR'', JNum (9 / 10))], set_margin 50 example_cached)"
    by (simp add: get_rates_def cache_valid_def timedelta_minutes_def example_cached_def
          init_state_def init_config_def init_cache_def set_margin_def)
  have m: "map_of [(''EUR'', JNum (9 / 10))] (code (Currency ''EUR'')) = Some (JNum (9 / 10))"
    by (simp add: code_EUR)
  have p: "margin_percent (config (set_margin 50 example_cached)) = 50"
    by (simp add: set_margin_def)
  have c: "currency_convert (Currency ''EUR'') 1 1 net_down (set_margin 50 example_cached) =
             (Inr (9 / 20), set_margin 50 example_cached)"
    using convert_value [OF g m, of 1] by (simp add: p)
  have f: "currency_rfloordiv (Currency ''EUR'') 9 1 net_down (set_margin 50 example_cached) =
             (Inr 20, set_margin 50 example_cached)"
    by (simp add: operators_value(8) [OF c] py_floordiv_def)
  show ?thesis
    using c f rtruediv_value [OF g m, of 9]
    by (simp add: p py_truediv_def)
qed

text \<open>
  The operators as the source computes them. Under any margin, with \<open>c\<close> the value of \<^verbatim>\<open>_convert(1)\<close>:
  \<^verbatim>\<open>h + x\<close> is \<open>c + x\<close>, \<^verbatim>\<open>x + h\<close> is \<open>x + c\<close>, \<^verbatim>\<open>h - x\<close> is \<open>c - x\<close>, \<^verbatim>\<open>x - h\<close> is \<open>x - c\<close>,
  \<^verbatim>\<open>h % x\<close> is \<open>c % x\<close>, \<^verbatim>\<open>x % h\<close> is \<open>x % c\<close>, \<^verbatim>\<open>h // x\<close> is \<open>c // x\<close>, \<^verbatim>\<open>x // h\<close> is \<open>x // c\<close>
  (modulo and floor division raise \<^verbatim>\<open>ZeroDivisionError\<close> on a zero divisor), and when
  \<^verbatim>\<open>_convert(1)\<close> raises, each of these raises the same error; \<^verbatim>\<open>h * x\<close> and \<^verbatim>\<open>x * h\<close> are
  \<^verbatim>\<open>_convert(x)\<close>; \<^verbatim>\<open>h / x\<close> is \<^verbatim>\<open>_convert(1 / x)\<close>, raising \<^verbatim>\<open>ZeroDivisionError\<close> before any
  lookup when \<open>x\<close> is zero. \<^verbatim>\<open>x / h\<close> is \<open>x\<close> divided by the plain rate, without the margin;
  it is \<open>x / c\<close> when the configured margin is not positive.
\<close>

proposition operators_reduce_to_convert:
  "(currency_convert h 1 now nt s = (Inr c, s') \<longrightarrow>
      currency_add h x now nt s = (Inr (c + x), s') \<and>
      currency_radd h x now nt s = (Inr (x + c), s') \<and>
      currency_sub h x now nt s = (Inr (c - x), s') \<and>
      currency_rsub h x now nt s = (Inr (x - c), s') \<and>
      currency_mod h x now nt s = (py_mod c x, s') \<and>
      currency_rmod h x now nt s = (py_mod x c, s') \<and>
      currency_floordiv h x now nt s = (py_floordiv c x, s') \<and>
      currency_rfloordiv h x now nt s = (py_floordiv x c, s')) \<and>
   (currency_convert h 1 now nt s = (Inl e, s') \<longrightarrow>
      currency_add h x now nt s = (Inl e, s') \<and>
      currency_radd h x now nt s = (Inl e, s') \<and>
      currency_sub h x now nt s = (Inl e, s') \<and>
      currency_rsub h x now nt s = (Inl e, s') \<and>
      currency_mod h x now nt s = (Inl e, s') \<and>
      currency_rmod h x now nt s = (Inl e, s') \<and>
      currency_floordiv h x now nt s = (Inl e, s') \<and>
      currency_rfloordiv h x now nt s = (Inl e, s')) \<and>
   currency_mul h x now nt s = currency_convert h x now nt s \<and>
   currency_rmul h x now nt s = currency_convert h x now nt s \<and>
   (x \<noteq> 0 \<longrightarrow> currency_truediv h x now nt s = currency_convert h (1 / x) now nt s) \<and>
   (x = 0 \<longrightarrow> currency_truediv h x now nt s = (Inl ZeroDivisionError, s)) \<and>
   (currency_rate h now nt s = (Inr (JNum r), s') \<longrightarrow>
      currency_rtruediv h x now nt s = (py_truediv x r, s')) \<and>
   (margin_percent (config s) \<le> 0 \<and> currency_convert h 1 now nt s = (Inr c, s') \<longrightarrow>
      currency_rtruediv h x now nt s = (py_truediv x c, s'))"
proof -
  have a: "currency_convert h 1 now nt s = (Inr c, s') \<longrightarrow>
      currency_add h x now nt s = (Inr (c + x), s') \<and>
      currency_radd h x now nt s = (Inr (x + c), s') \<and>
      currency_sub h x now nt s = (Inr (c - x), s') \<and>
      currency_rsub h x now nt s = (Inr (x - c), s') \<and>
      currency_mod h x now nt s = (py_mod c x, s') \<and>
      currency_rmod h x now nt s = (py_mod x c, s') \<and>
      currency_floordiv h x now nt s = (py_floordiv c x, s') \<and>
      currency_rfloordiv h x now nt s = (py_floordiv x c, s')"
    by (intro impI conjI) (rule operators_value, assumption)+
  have b: "currency_convert h 1 now nt s = (Inl e, s') \<longrightarrow>
      currency_add h x now nt s = (Inl e, s') \<and>
      currency_radd h x now nt s = (Inl e, s') \<and>
      currency_sub h x now nt s = (Inl e, s') \<and>
      currency_rsub h x now nt s = (Inl e, s') \<and>
      currency_mod h x now nt s = (Inl e, s') \<and>
      currency_rmod h x now nt s = (Inl e, s') \<and>
      currency_floordiv h x now nt s = (Inl e, s') \<and>
      currency_rfloordiv h x now nt s = (Inl e, s')"
    by (intro impI conjI) (rule operators_raise, assumption)+
  have c: "currency_mul h x now nt s = currency_convert h x now nt s"
    and d: "currency_rmul h x now nt s = currency_convert h x now nt s"
    by (simp_all add: currency_mul_def currency_rmul_def)
  have e: "x \<noteq> 0 \<longrightarrow> currency_truediv h x now nt s = currency_convert h (1 / x) now nt s"
    by (simp add: truediv_value)
  have f: "x = 0 \<longrightarrow> currency_truediv h x now nt s = (Inl ZeroDivisionError, s)"
    by (simp add: truediv_zero)
  have g: "currency_rate h now nt s = (Inr (JNum r), s') \<longrightarrow>
      currency_rtruediv h x now nt s = (py_truediv x r, s')"
    by (simp add: rtruediv_rate)
  have i: "margin_percent (config s) \<le> 0 \<and> currency_convert h 1 now nt s = (Inr c, s') \<longrightarrow>
      currency_rtruediv h x now nt s = (py_truediv x c, s')"
    by (auto intro: rtruediv_no_margin)
  from a b c d e f g i show ?thesis by (intro conjI)
qed

proposition operators_reduce_to_convert_instances:
  "currency_convert (Currency ''EUR'') 1 1 net_down example_cached =
     (Inr (9 / 10), example_cached) \<and>
   currency_rate (Currency ''EUR'') 1 net_down example_cached =
     (Inr (JNum (9 / 10)), example_cached) \<and>
   margin_percent (config example_cached) \<le> 0 \<and>
   (2 :: real) \<noteq> 0 \<and>
   currency_add (Currency ''EUR'') 2 1 net_down example_cached = (Inr (29 / 10), example_cached) \<and>
   currency_rsub (Currency ''EUR'') 2 1 net_down example_cached = (Inr (11 / 10), example_cached) \<and>
   currency_mod (Currency ''EUR'') 2 1 net_down example_cached = (Inr (9 / 10), example_cached) \<and>
   currency_rmod (Currency ''EUR'') 2 1 net_down example_cached = (Inr (2 / 10), example_cached) \<and>
   currency_floordiv (Currency ''EUR'') 2 1 net_down example_cached = (Inr 0, example_cached) \<and>
   currency_rfloordiv (Currency ''EUR'') 2 1 net_down example_cached = (Inr 2, example_cached) \<and>
   currency_truediv (Currency ''EUR'') 2 1 net_down example_cached =
     currency_convert (Currency ''EUR'') (1 / 2) 1 net_down example_cached \<and>
   currency_rtruediv (Currency ''EUR'') 2 1 net_down example_cached =
     (Inr (20 / 9), example_cached) \<and>
   currency_convert (Currency ''ZZZ'') 1 1 net_down example_cached =
     (Inl (not_found (Currency ''ZZZ'')), example_cached) \<and>
   currency_add (Currency ''ZZZ'') 0 1 net_down example_cached =
     (Inl (not_found (Currency ''ZZZ'')), example_cached) \<and>
   currency_truediv (Currency ''ZZZ'') 0 1 net_down example_cached =
     (Inl ZeroDivisionError, example_cached)"
proof -
  have g: "get_rates 1 net_down example_cached =
             (Inr [(''EUR'', JNum (9 / 10))], example_cached)"
    by (rule example_cached_hit)
  have m: "map_of [(''EUR'', JNum (9 / 10))] (code (Currency ''EUR'')) = Some (JNum (9 / 10))"
    by (simp add: code_EUR)
  have z: "map_of [(''EUR'', JNum (9 / 10))] (code (Currency ''ZZZ'')) = None"
    by (simp add: code_ZZZ)
  have p: "margin_percent (config example_cached) = 0"
    by (simp add: example_cached_cfg)
  have c: "currency_convert (Currency ''EUR'') 1 1 net_down example_cached =
             (Inr (9 / 10), example_cached)"
    using convert_value [OF g m, of 1] by (simp add: p)
  have r: "currency_rate (Currency ''EUR'') 1 net_down example_cached =
             (Inr (JNum (9 / 10)), example_cached)"
    using rate_present [OF g m] by simp
  have f: "currency_convert (Currency ''ZZZ'') 1 1 net_down example_cached =
             (Inl (not_found (Currency ''ZZZ'')), example_cached)"
    using rate_absent [OF g z] by (simp add: currency_convert_def p and_then_def)
  show ?thesis
    using operators_reduce_to_convert [of "Currency ''EUR''" 1 net_down example_cached "9 / 10"
            example_cached 2 ZeroDivisionError "9 / 10"]
      operators_reduce_to_convert [of "Currency ''ZZZ''" 1 net_down example_cached 0
            example_cached 0 "not_found (Currency ''ZZZ'')" 0]
      c r f p
    by (simp add: py_mod_def py_floordiv_def py_truediv_def)
qed

section \<open>The configured base currency\<close>

text \<open>
  Claim C9, as stated, fails in the initial state: \<^verbatim>\<open>_config\<close> starts with the base
  \<^verbatim>\<open>'usd'\<close> in lower case, which is not an uppercase 3-letter code. And \<^verbatim>\<open>set_base\<close>
  checks nothing: \<^verbatim>\<open>set_base('euro')\<close> stores the four letters \<^verbatim>\<open>'EURO'\<close>.
\<close>

theorem initial_base_counterexample:
  "base_currency (config init_state) = ''usd'' \<and>
   \<not> is_currency_code (base_currency (config init_state)) \<and>
   base_currency (config (set_base ''euro'' init_state)) = ''EURO'' \<and>
   \<not> is_currency_code (base_currency (config (set_base ''euro'' init_state)))"
  by (simp add: init_state_def init_config_def is_currency_code_def is_upper_letter_def
        set_base_def str_eval)

text \<open>
  Claim C9, amended. \<^verbatim>\<open>set_base(c)\<close> stores the upper-cased form of \<open>c\<close>; when \<open>c\<close> consists
  of three ASCII letters, that is an uppercase 3-letter code. In every state reached from
  the initial one by the operations, the configured base is the initial \<^verbatim>\<open>'usd'\<close> or the
  upper-cased argument of a \<^verbatim>\<open>set_base\<close> that was called.
\<close>

theorem base_currency_reachable:
  "base_currency (config (set_base c s)) = upper c \<and>
   (length c = 3 \<and> list_all is_ascii_letter c \<longrightarrow>
      is_currency_code (base_currency (config (set_base c s)))) \<and>
   (base_currency (config (run ops init_state)) = ''usd'' \<or>
    (\<exists>c'. SetBase c' \<in> set ops \<and> base_currency (config (run ops init_state)) = upper c'))"
proof -
  have "base_currency (config init_state) = ''usd''"
    by (simp add: init_state_def init_config_def)
  with base_run [of ops init_state] show ?thesis
    by (simp add: set_base_def upper_currency_code)
qed

theorem base_currency_reachable_witness:
  "base_currency (config (set_base ''eur'' init_state)) = ''EUR'' \<and>
   length ''eur'' = 3 \<and> list_all is_ascii_letter ''eur'' \<and>
   is_currency_code (base_currency (config (set_base ''eur'' init_state))) \<and>
   base_currency (config (run [SetBase ''eur'', SetMargin 2] init_state)) = ''EUR'' \<and>
   base_currency (config (run [SetMargin 2] init_state)) = ''usd''"
  using base_currency_reachable [of "''eur''" init_state "[SetBase ''eur'', SetMargin 2]"]
    base_currency_reachable [of "''eur''" init_state "[SetMargin 2]"]
  by (simp add: str_eval is_ascii_letter_def set_margin_def set_base_def init_state_def
        init_config_def)

section \<open>The other setters\<close>

text \<open>
  Claim C10. \<^verbatim>\<open>set_margin\<close> and \<^verbatim>\<open>set_cache_ttl\<close> leave the cache entry (table, recorded
  base, timestamp) and the configured base as they are. After \<^verbatim>\<open>set_margin(p)\<close>, a
  conversion while the entry is valid under the TTL is served from the cached table, with
  the state, and so the log of adapter calls, unchanged, and with the new margin \<open>p\<close>
  applied. After \<^verbatim>\<open>set_cache_ttl(m)\<close>, a conversion while the entry is valid under the new
  TTL is served from the cached table in the same way, with the margin as configured.
\<close>

theorem setters_keep_cache:
  "cache (set_margin p s) = cache s \<and>
   cache (set_cache_ttl m s) = cache s \<and>
   base_currency (config (set_margin p s)) = base_currency (config s) \<and>
   base_currency (config (set_cache_ttl m s)) = base_currency (config s) \<and>
   (timedelta_minutes (cache_ttl_minutes (config s)) = Inr ttl \<and> spec_entry_valid now ttl s \<and>
    map_of (rates (cache s)) (code h) = Some (JNum r) \<longrightarrow>
      get_rates now nt (set_margin p s) = (Inr (rates (cache s)), set_margin p s) \<and>
      currency_convert h a now nt (set_margin p s) =
        (Inr (if 0 < p then a * r * (1 - p / 100) else a * r), set_margin p s)) \<and>
   (timedelta_minutes m = Inr ttl' \<and> spec_entry_valid now ttl' s \<and>
    map_of (rates (cache s)) (code h) = Some (JNum r) \<longrightarrow>
      get_rates now nt (set_cache_ttl m s) = (Inr (rates (cache s)), set_cache_ttl m s) \<and>
      currency_convert h a now nt (set_cache_ttl m s) =
        (Inr (if 0 < margin_percent (config s)
              then a * r * (1 - margin_percent (config s) / 100) else a * r),
         set_cache_ttl m s))"
proof -
  have a: "timedelta_minutes (cache_ttl_minutes (config s)) = Inr ttl \<and>
    spec_entry_valid now ttl s \<and> map_of (rates (cache s)) (code h) = Some (JNum r) \<longrightarrow>
      get_rates now nt (set_margin p s) = (Inr (rates (cache s)), set_margin p s) \<and>
      currency_convert h a now nt (set_margin p s) =
        (Inr (if 0 < p then a * r * (1 - p / 100) else a * r), set_margin p s)"
  proof (intro impI, elim conjE)
    assume t: "timedelta_minutes (cache_ttl_minutes (config s)) = Inr ttl"
      and v: "spec_entry_valid now ttl s"
      and m: "map_of (rates (cache s)) (code h) = Some (JNum r)"
    have g: "get_rates now nt (set_margin p s) = (Inr (rates (cache s)), set_margin p s)"
      using get_rates_valid [of "set_margin p s" ttl now nt] t v
      by (simp add: setter_fields spec_entry_valid_set_margin)
    from convert_value [OF g m, of a] g
    show "get_rates now nt (set_margin p s) = (Inr (rates (cache s)), set_margin p s) \<and>
      currency_convert h a now nt (set_margin p s) =
        (Inr (if 0 < p then a * r * (1 - p / 100) else a * r), set_margin p s)"
      by (simp add: setter_fields)
  qed
  have b: "timedelta_minutes m = Inr ttl' \<and> spec_entry_valid now ttl' s \<and>
    map_of (rates (cache s)) (code h) = Some (JNum r) \<longrightarrow>
      get_rates now nt (set_cache_ttl m s) = (Inr (rates (cache s)), set_cache_ttl m s) \<and>
      currency_convert h a now nt (set_cache_ttl m s) =
        (Inr (if 0 < margin_percent (config s)
              then a * r * (1 - margin_percent (config s) / 100) else a * r),
         set_cache_ttl m s)"
  proof (intro impI, elim conjE)
    assume t: "timedelta_minutes m = Inr ttl'"
      and v: "spec_entry_valid now ttl' s"
      and m: "map_of (rates (cache s)) (code h) = Some (JNum r)"
    have g: "get_rates now nt (set_cache_ttl m s) = (Inr (rates (cache s)), set_cache_ttl m s)"
      using get_rates_valid [of "set_cache_ttl m s" ttl' now nt] t v
      by (simp add: setter_fields spec_entry_valid_set_cache_ttl)
    from convert_value [OF g m, of a] g
    show "get_rates now nt (set_cache_ttl m s) = (Inr (rates (cache s)), set_cache_ttl m s) \<and>
      currency_convert h a now nt (set_cache_ttl m s) =
        (Inr (if 0 < margin_percent (config s)
              then a * r * (1 - margin_percent (config s) / 100) else a * r),
         set_cache_ttl m s)"
      by (simp add: setter_fields)
  qed
  from a b show ?thesis by (simp only: setter_fields simp_thms)
qed

theorem setters_keep_cache_witness:
  "timedelta_minutes (cache_ttl_minutes (config example_cached)) = Inr 3600000000 \<and>
   timedelta_minutes 120 = Inr 7200000000 \<and>
   spec_entry_valid 3000000000 3600000000 example_cached \<and>
   \<not> spec_entry_valid 5000000000 3600000000 example_cached \<and>
   spec_entry_valid 5000000000 7200000000 example_cached \<and>
   map_of (rates (cache example_cached)) (code (Currency ''EUR'')) = Some (JNum (9 / 10)) \<and>
   currency_convert (Currency ''EUR'') 100 3000000000 net_down (set_margin 3.5 example_cached) =
     (Inr 86.85, set_margin 3.5 example_cached) \<and>
   currency_convert (Currency ''EUR'') 100 5000000000 net_down (set_cache_ttl 120 example_cached) =
     (Inr 90, set_cache_ttl 120 example_cached)"
proof -
  have t: "timedelta_minutes (cache_ttl_minutes (config example_cached)) = Inr 3600000000"
    and t': "timedelta_minutes 120 = Inr 7200000000"
    by (simp_all add: timedelta_minutes_def example_cached_cfg)
  have v: "spec_entry_valid 3000000000 3600000000 example_cached"
    and n: "\<not> spec_entry_valid 5000000000 3600000000 example_cached"
    and v': "spec_entry_valid 5000000000 7200000000 example_cached"
    by (simp_all add: spec_entry_valid_def example_cached_cfg)
  have m: "map_of (rates (cache example_cached)) (code (Currency ''EUR'')) = Some (JNum (9 / 10))"
    by (simp add: example_cached_cfg code_EUR)
  show ?thesis
    using setters_keep_cache [of "3.5" example_cached 120 3600000000 3000000000
            "Currency ''EUR''" "9 / 10" net_down 100 7200000000]
      setters_keep_cache [of "3.5" example_cached 120 7200000000 5000000000
            "Currency ''EUR''" "9 / 10" net_down 100 7200000000]
      t t' v n v' m
    by (simp add: example_cached_cfg)
qed

end
